theory Spec2Isabelle
  imports Main
begin

section \<open>Data model\<close>

text \<open>
  Python exceptions that the modelled code raises or lets through.  Every constructor
  stands for an instance of a subclass of Python's \<open>Exception\<close> (so an
  \<open>except Exception\<close> clause catches each of them); interrupts outside that class are
  not modelled.
\<close>

datatype exn =
    ValueError string
  | KeyError string
  | ImportError string
  | ToolException string
  | GatewayError string

text \<open>
  A tool call as LangChain normalises it on an assistant message: a dict with the keys
  \<open>name\<close>, \<open>args\<close> and \<open>id\<close>.  The arguments are a dict, kept as an
  association list.
\<close>

type_synonym args = "(string \<times> string) list"

record tool_call =
  tc_name :: string
  tc_args :: args
  tc_id :: string

text \<open>The assistant turn returned by the writer model: its text and its tool calls.\<close>

record ai_message =
  content :: string
  tool_calls :: "tool_call list"

text \<open>\<open>ToolMessage(content=..., name=..., tool_call_id=...)\<close>.\<close>

record tool_message =
  tm_content :: string
  tm_name :: string
  tm_tool_call_id :: string

text \<open>
  What the code puts into the \<open>messages\<close> channel: a bare string (report generation)
  or a tool message (tool execution).
\<close>

datatype message = RawText string | ToolMsg tool_message

text \<open>
  The values the code stores under \<open>final_report\<close>: \<open>final_report_generation\<close>
  stores the assistant message object itself, \<open>final_report_tools\<close> stores that
  message's \<open>.content\<close> string.
\<close>

datatype report_value = ReportMessage ai_message | ReportText string

text \<open>
  Modelled from the spec: \<open>state.py\<close> (the \<open>AgentState\<close> schema and the reducers of
  its channels) is not among the sources.  The spec's DATA MODEL gives the shared state as
  messages (an ordered sequence that accumulates), an optional research brief, notes (an
  append-only ordered sequence) and an optional final report; each stage returns a partial
  update that is merged into the state.  An absent key is \<open>None\<close>; the key \<open>notes\<close> is the
  field \<open>state_notes\<close>.
\<close>

record agent_state =
  messages :: "message list"
  research_brief :: "string option"
  state_notes :: "string list"
  final_report :: "report_value option"

text \<open>
  The \<open>update\<close> dict of a \<open>Command\<close>: the keys the node writes.  A key that is
  not written is \<open>None\<close> (for the accumulating channels: the empty list).
\<close>

record update =
  upd_messages :: "message list"
  upd_research_brief :: "string option"
  upd_notes :: "string list"
  upd_final_report :: "report_value option"

definition empty_update :: update where
  "empty_update =
     \<lparr>upd_messages = [], upd_research_brief = None, upd_notes = [], upd_final_report = None\<rparr>"

text \<open>
  Modelled from the spec: the merge of a partial update into the shared state
  (\<open>state.py\<close> is not among the sources).  Sequences accumulate (append, never replace);
  a written scalar replaces the stored one.
\<close>

definition apply_update :: "agent_state \<Rightarrow> update \<Rightarrow> agent_state" where
  "apply_update s u =
     \<lparr>messages = messages s @ upd_messages u,
      research_brief =
        (case upd_research_brief u of None \<Rightarrow> research_brief s | Some b \<Rightarrow> Some b),
      state_notes = state_notes s @ upd_notes u,
      final_report =
        (case upd_final_report u of None \<Rightarrow> final_report s | Some r \<Rightarrow> Some r)\<rparr>"

text \<open>
  Everything outside the process: the tool server and the model backend share an opaque
  world \<open>'w\<close> that every call may change.  \<open>events\<close> records the gateway calls in
  the order the code makes them; \<open>mcp_client\<close> is the module-level \<open>_client\<close> of
  \<open>research_report.py\<close> (\<open>False\<close> while it is \<open>None\<close>).
\<close>

datatype event =
    GetTools
  | ModelInvoke string
  | ToolInvoke string args

record 'w env =
  world :: 'w
  events :: "event list"
  mcp_client :: bool

section \<open>agent.py: routing and the top-level graph\<close>

text \<open>
  \<open>route_after_scoping\<close>: \<open>state.get("research_brief")\<close> followed by Python's
  truth test, which a string passes exactly when it is not empty.
\<close>

definition route_after_scoping :: "agent_state \<Rightarrow> string" where
  "route_after_scoping state =
     (case research_brief state of
        None \<Rightarrow> ''__end__''
      | Some b \<Rightarrow> (if b \<noteq> [] then ''supervisor_subgraph'' else ''__end__''))"

datatype agent_node = ScopeSubgraph | SupervisorSubgraph | ReportSubgraph | AgentEnd

text \<open>
  The path map given to \<open>add_conditional_edges\<close>:
  \<open>{"__end__": END, "supervisor_subgraph": "supervisor_subgraph"}\<close>.
\<close>

definition path_map :: "string \<Rightarrow> agent_node option" where
  "path_map r =
     (if r = ''__end__'' then Some AgentEnd
      else if r = ''supervisor_subgraph'' then Some SupervisorSubgraph
      else None)"

text \<open>
  The three nodes of the top-level graph.  \<open>research_scope\<close> and
  \<open>supervisor_agent\<close> are imported from modules that are not among the sources, so
  they are parameters: a stage takes the shared state and the outside world and either
  raises or returns the next state.
\<close>

type_synonym 'w stage = "agent_state \<Rightarrow> 'w env \<Rightarrow> (exn + agent_state) \<times> 'w env"

record 'w stages =
  scope_subgraph :: "'w stage"
  supervisor_subgraph :: "'w stage"
  report_subgraph :: "'w stage"

fun node_stage :: "'w stages \<Rightarrow> agent_node \<Rightarrow> 'w stage" where
  "node_stage st ScopeSubgraph = scope_subgraph st"
| "node_stage st SupervisorSubgraph = supervisor_subgraph st"
| "node_stage st ReportSubgraph = report_subgraph st"
| "node_stage st AgentEnd = (\<lambda>s e. (Inr s, e))"

text \<open>
  The edges: \<open>START \<rightarrow> scope_subgraph\<close>, the conditional edge after scoping,
  \<open>supervisor_subgraph \<rightarrow> report_subgraph\<close>, \<open>report_subgraph \<rightarrow> END\<close>.  A router result
  outside the path map is an error of the graph library.
\<close>

fun agent_edge :: "agent_node \<Rightarrow> agent_state \<Rightarrow> exn + agent_node" where
  "agent_edge ScopeSubgraph s =
     (case path_map (route_after_scoping s) of
        None \<Rightarrow> Inl (KeyError (route_after_scoping s))
      | Some n \<Rightarrow> Inr n)"
| "agent_edge SupervisorSubgraph s = Inr ReportSubgraph"
| "agent_edge ReportSubgraph s = Inr AgentEnd"
| "agent_edge AgentEnd s = Inr AgentEnd"

fun node_rank :: "agent_node \<Rightarrow> nat" where
  "node_rank ScopeSubgraph = 3"
| "node_rank SupervisorSubgraph = 2"
| "node_rank ReportSubgraph = 1"
| "node_rank AgentEnd = 0"

text \<open>
  The result of a run: the raised exception or the final state, the outside world after
  the run, and the nodes that were invoked, in order.
\<close>

type_synonym 'w run = "(exn + agent_state) \<times> 'w env \<times> agent_node list"

text \<open>
  Running the compiled graph from a node: invoke the node, stop at an exception, follow
  the edge otherwise.  \<open>tr\<close> accumulates the invoked nodes.
\<close>

function agent_from :: "'w stages \<Rightarrow> agent_node \<Rightarrow> agent_state \<Rightarrow> 'w env \<Rightarrow> agent_node list \<Rightarrow> 'w run"
  where
  "agent_from st n s e tr =
     (if n = AgentEnd then (Inr s, e, tr)
      else
        (case node_stage st n s e of
           (Inl x, e') \<Rightarrow> (Inl x, e', tr @ [n])
         | (Inr s', e') \<Rightarrow>
             (case agent_edge n s' of
                Inl x \<Rightarrow> (Inl x, e', tr @ [n])
              | Inr n' \<Rightarrow> agent_from st n' s' e' (tr @ [n]))))"
  by pat_completeness auto
termination
proof (relation "measure (\<lambda>(st, n, s, e, tr). node_rank n)")
  fix st :: "'w stages" and n n' :: agent_node and s s' :: agent_state
    and e e' :: "'w env" and tr :: "agent_node list" and r p
  assume "n \<noteq> AgentEnd" and "agent_edge n s' = Inr n'"
  then have "node_rank n' < node_rank n"
    by (cases n) (auto simp: path_map_def route_after_scoping_def
        split: option.splits if_splits)
  then show "((st, n', s', e', tr @ [n]), (st, n, s, e, tr))
      \<in> measure (\<lambda>(st, n, s, e, tr). node_rank n)"
    by simp
qed simp

text \<open>\<open>agent = deep_researcher_builder.compile()\<close>, entered at \<open>START\<close>.\<close>

definition agent :: "'w stages \<Rightarrow> agent_state \<Rightarrow> 'w env \<Rightarrow> 'w run" where
  "agent st s e = agent_from st ScopeSubgraph s e []"

section \<open>research\_report.py: the report subgraph\<close>

text \<open>
  A tool as the MCP client hands it out: its name and its asynchronous invocation, which
  acts on the outside world and returns an observation or raises.
\<close>

record 'w tool =
  tool_name :: string
  ainvoke :: "args \<Rightarrow> 'w \<Rightarrow> (exn + string) \<times> 'w"

text \<open>
  The external collaborators of the report stage: \<open>client.get_tools()\<close> of the MCP
  client, the writer model with tools bound (\<open>writer_model.bind_tools(tools).ainvoke\<close> on
  one human message holding the prompt), and two imports that are not among the sources:
  the prompt template (its \<open>format\<close> on brief, findings and date) and
  \<open>get_today_str\<close>.
\<close>

record 'w gateway =
  get_tools :: "'w \<Rightarrow> (exn + 'w tool list) \<times> 'w"
  writer_model :: "'w tool list \<Rightarrow> string \<Rightarrow> 'w \<Rightarrow> (exn + ai_message) \<times> 'w"
  final_report_generator_prompt :: "string \<Rightarrow> string \<Rightarrow> string \<Rightarrow> string"
  get_today_str :: "'w \<Rightarrow> string"

text \<open>
  \<open>get_mcp_client\<close>: creates the module-level client on first use and reuses it
  afterwards; either way the client exists on return.
\<close>

definition get_mcp_client :: "'w env \<Rightarrow> 'w env" where
  "get_mcp_client e = (if \<not> mcp_client e then e\<lparr>mcp_client := True\<rparr> else e)"

definition client_get_tools :: "'w gateway \<Rightarrow> 'w env \<Rightarrow> (exn + 'w tool list) \<times> 'w env" where
  "client_get_tools gw e =
     (case get_tools gw (world e) of
        (r, w') \<Rightarrow> (r, e\<lparr>world := w', events := events e @ [GetTools]\<rparr>))"

definition model_ainvoke ::
  "'w gateway \<Rightarrow> 'w tool list \<Rightarrow> string \<Rightarrow> 'w env \<Rightarrow> (exn + ai_message) \<times> 'w env" where
  "model_ainvoke gw tools prompt e =
     (case writer_model gw tools prompt (world e) of
        (r, w') \<Rightarrow> (r, e\<lparr>world := w', events := events e @ [ModelInvoke prompt]\<rparr>))"

definition tool_ainvoke :: "'w tool \<Rightarrow> tool_call \<Rightarrow> 'w env \<Rightarrow> (exn + string) \<times> 'w env" where
  "tool_ainvoke t c e =
     (case ainvoke t (tc_args c) (world e) of
        (r, w') \<Rightarrow>
          (r, e\<lparr>world := w', events := events e @ [ToolInvoke (tc_name c) (tc_args c)]\<rparr>))"

text \<open>\<open>"\n".join(notes)\<close>.\<close>

fun join_newline :: "string list \<Rightarrow> string" where
  "join_newline [] = []"
| "join_newline [x] = x"
| "join_newline (x # y # ys) = x @ CHR 0x0A # join_newline (y # ys)"

datatype report_node = FinalReportGeneration | FinalReportTools | ReportEnd

text \<open>\<open>Command(goto=..., update={...})\<close>.\<close>

record command =
  cmd_goto :: report_node
  cmd_update :: update

text \<open>
  \<open>final_report_generation\<close>: build the prompt from the brief (default \<open>""\<close>), the
  joined notes and the date; fetch the tools; invoke the model once; write the returned
  message under \<open>final_report\<close> and one string to \<open>messages\<close>; go to the tool
  node.  An exception of a gateway call leaves the node.
\<close>

definition final_report_generation ::
  "'w gateway \<Rightarrow> agent_state \<Rightarrow> 'w env \<Rightarrow> (exn + command) \<times> 'w env" where
  "final_report_generation gw state e =
     (let findings = join_newline (state_notes state);
          final_report_prompt =
            final_report_generator_prompt gw
              (case research_brief state of None \<Rightarrow> [] | Some b \<Rightarrow> b)
              findings
              (get_today_str gw (world e))
      in
        (case client_get_tools gw (get_mcp_client e) of
           (Inl x, e1) \<Rightarrow> (Inl x, e1)
         | (Inr tools, e1) \<Rightarrow>
             (case model_ainvoke gw tools final_report_prompt e1 of
                (Inl x, e2) \<Rightarrow> (Inl x, e2)
              | (Inr final_report_msg, e2) \<Rightarrow>
                  (Inr \<lparr>cmd_goto = FinalReportTools,
                         cmd_update = empty_update
                           \<lparr>upd_final_report := Some (ReportMessage final_report_msg),
                            upd_messages :=
                              [RawText (''Here is the final report: '' @ content final_report_msg)]\<rparr>\<rparr>,
                   e2))))"

text \<open>
  \<open>tools_by_name = {tool.name: tool for tool in tools}\<close>: a later tool of the same
  name replaces an earlier one.
\<close>

definition tools_by_name :: "'w tool list \<Rightarrow> (string \<rightharpoonup> 'w tool)" where
  "tools_by_name tools = fold (\<lambda>t m. m(tool_name t \<mapsto> t)) tools Map.empty"

text \<open>
  The loop of \<open>execute_tools\<close>: for each tool call in turn, look the tool up
  (\<open>KeyError\<close> when the name is not a key), await its invocation, append the
  observation.  Neither the lookup nor the invocation is guarded by a handler, so an
  exception leaves the loop with the calls after it not executed.
\<close>

fun run_tool_calls ::
  "(string \<rightharpoonup> 'w tool) \<Rightarrow> tool_call list \<Rightarrow> string list \<Rightarrow> 'w env \<Rightarrow> (exn + string list) \<times> 'w env"
  where
  "run_tool_calls tbn [] observations e = (Inr observations, e)"
| "run_tool_calls tbn (tc # tcs) observations e =
     (case tbn (tc_name tc) of
        None \<Rightarrow> (Inl (KeyError (tc_name tc)), e)
      | Some t \<Rightarrow>
          (case tool_ainvoke t tc e of
             (Inl x, e') \<Rightarrow> (Inl x, e')
           | (Inr observation, e') \<Rightarrow> run_tool_calls tbn tcs (observations @ [observation]) e'))"

text \<open>
  \<open>execute_tools\<close>: fetch fresh tool references, run the loop, then format the
  observations as tool messages by zipping them with the tool calls.
\<close>

definition execute_tools ::
  "'w gateway \<Rightarrow> tool_call list \<Rightarrow> 'w env \<Rightarrow> (exn + tool_message list) \<times> 'w env" where
  "execute_tools gw tcs e =
     (case client_get_tools gw (get_mcp_client e) of
        (Inl x, e1) \<Rightarrow> (Inl x, e1)
      | (Inr tools, e1) \<Rightarrow>
          (case run_tool_calls (tools_by_name tools) tcs [] e1 of
             (Inl x, e2) \<Rightarrow> (Inl x, e2)
           | (Inr observations, e2) \<Rightarrow>
               (Inr (map (\<lambda>(observation, tc).
                       \<lparr>tm_content = observation, tm_name = tc_name tc,
                        tm_tool_call_id = tc_id tc\<rparr>)
                     (zip observations tcs)),
                e2)))"

text \<open>
  \<open>final_report_tools\<close>: when the stored \<open>final_report\<close> has no \<open>tool_calls\<close>
  attribute (it is absent or a string) or the list is empty, go to \<open>END\<close> with an empty
  update; otherwise execute the tools, then write the message's \<open>.content\<close> under
  \<open>final_report\<close> and the tool messages to \<open>messages\<close>.
\<close>

definition final_report_tools ::
  "'w gateway \<Rightarrow> agent_state \<Rightarrow> 'w env \<Rightarrow> (exn + command) \<times> 'w env" where
  "final_report_tools gw state e =
     (case final_report state of
        None \<Rightarrow> (Inr \<lparr>cmd_goto = ReportEnd, cmd_update = empty_update\<rparr>, e)
      | Some (ReportText t) \<Rightarrow> (Inr \<lparr>cmd_goto = ReportEnd, cmd_update = empty_update\<rparr>, e)
      | Some (ReportMessage m) \<Rightarrow>
          (if tool_calls m = [] then (Inr \<lparr>cmd_goto = ReportEnd, cmd_update = empty_update\<rparr>, e)
           else
             (case execute_tools gw (tool_calls m) e of
                (Inl x, e') \<Rightarrow> (Inl x, e')
              | (Inr tool_messages, e') \<Rightarrow>
                  (Inr \<lparr>cmd_goto = ReportEnd,
                         cmd_update = empty_update
                           \<lparr>upd_final_report := Some (ReportText (content m)),
                            upd_messages := map ToolMsg tool_messages\<rparr>\<rparr>,
                   e'))))"

text \<open>
  The nodes added to \<open>final_report_builder\<close>.  \<open>START\<close> leads to
  \<open>final_report_generation\<close>; after a node the graph follows the \<open>goto\<close> of the
  returned command (the static edge from \<open>final_report_tools\<close> to \<open>END\<close> names the
  same target as that node's \<open>goto\<close>).
\<close>

fun report_node_fn ::
  "'w gateway \<Rightarrow> report_node \<Rightarrow> agent_state \<Rightarrow> 'w env \<Rightarrow> (exn + command) \<times> 'w env" where
  "report_node_fn gw FinalReportGeneration = final_report_generation gw"
| "report_node_fn gw FinalReportTools = final_report_tools gw"
| "report_node_fn gw ReportEnd = (\<lambda>s e. (Inr \<lparr>cmd_goto = ReportEnd, cmd_update = empty_update\<rparr>, e))"

fun report_rank :: "report_node \<Rightarrow> nat" where
  "report_rank FinalReportGeneration = 2"
| "report_rank FinalReportTools = 1"
| "report_rank ReportEnd = 0"

text \<open>
  The result of a run of the report subgraph: the raised exception or the final state, the
  outside world after the run, and the nodes that were entered, in order, each with the
  update it returned (\<open>None\<close> when it raised).
\<close>

type_synonym 'w report_run =
  "(exn + agent_state) \<times> 'w env \<times> (report_node \<times> update option) list"

function report_from ::
  "'w gateway \<Rightarrow> report_node \<Rightarrow> agent_state \<Rightarrow> 'w env \<Rightarrow>
   (report_node \<times> update option) list \<Rightarrow> 'w report_run"
  where
  "report_from gw n s e tr =
     (if n = ReportEnd then (Inr s, e, tr)
      else
        (case report_node_fn gw n s e of
           (Inl x, e') \<Rightarrow> (Inl x, e', tr @ [(n, None)])
         | (Inr c, e') \<Rightarrow>
             report_from gw (cmd_goto c) (apply_update s (cmd_update c)) e'
               (tr @ [(n, Some (cmd_update c))])))"
  by pat_completeness auto
termination
  apply (relation "measure (\<lambda>(gw, n, s, e, tr). report_rank n)")
   apply simp
  subgoal for gw n s e tr p c e'
    by (cases n)
      (auto simp: final_report_generation_def final_report_tools_def Let_def
        split: option.splits report_value.splits if_splits prod.splits sum.splits)
  done

text \<open>
  \<open>research_report = final_report_builder.compile()\<close>: the run with the trace of the
  nodes it entered, and the stage as the top-level graph uses it.
\<close>

definition report_run :: "'w gateway \<Rightarrow> agent_state \<Rightarrow> 'w env \<Rightarrow> 'w report_run" where
  "report_run gw s e = report_from gw FinalReportGeneration s e []"

definition research_report :: "'w gateway \<Rightarrow> 'w stage" where
  "research_report gw s e = (case report_run gw s e of (r, e', tr) \<Rightarrow> (r, e'))"

section \<open>model\_config.py: model selection with fallbacks\<close>

text \<open>
  String helpers.  \<open>split_once sep s\<close> is \<open>s.split(sep, 1)\<close> when \<open>sep\<close>
  (not empty) occurs in \<open>s\<close>: the text before the first occurrence and the text after
  it; \<open>None\<close> when it does not occur, that is, when \<open>sep in s\<close> is false.
  \<open>str_find sep s\<close> is \<open>s.find(sep)\<close> (\<open>None\<close> for -1), \<open>rsplit_once c s\<close> is
  \<open>s.rsplit(c, 1)\<close> for a one-character separator that occurs in \<open>s\<close>.
\<close>

fun split_once :: "string \<Rightarrow> string \<Rightarrow> (string \<times> string) option" where
  "split_once sep [] = None"
| "split_once sep (c # cs) =
     (if take (length sep) (c # cs) = sep then Some ([], drop (length sep) (c # cs))
      else (case split_once sep cs of
              None \<Rightarrow> None
            | Some (a, b) \<Rightarrow> Some (c # a, b)))"

definition str_find :: "string \<Rightarrow> string \<Rightarrow> nat option" where
  "str_find sep s = (case split_once sep s of None \<Rightarrow> None | Some (a, b) \<Rightarrow> Some (length a))"

definition rsplit_once :: "char \<Rightarrow> string \<Rightarrow> (string \<times> string) option" where
  "rsplit_once c s =
     (case split_once [c] (rev s) of None \<Rightarrow> None | Some (a, b) \<Rightarrow> Some (rev b, rev a))"

text \<open>The decimal text of an integer, as an f-string prints it.\<close>

definition digit_char :: "nat \<Rightarrow> char" where
  "digit_char n = ''0123456789'' ! n"

function str_nat :: "nat \<Rightarrow> string" where
  "str_nat n = (if n < 10 then [digit_char n] else str_nat (n div 10) @ [digit_char (n mod 10)])"
  by pat_completeness auto
termination
  by (relation "measure id") auto

definition str_int :: "int \<Rightarrow> string" where
  "str_int i = (if i < 0 then CHR ''-'' # str_nat (nat (- i)) else str_nat (nat i))"

text \<open>
  \<open>parse_model_string\<close>: when \<open>://\<close> occurs, the string is split at its first
  occurrence; otherwise it is split at the first \<open>:\<close>, and a split that does not
  yield two parts raises \<open>ValueError\<close>.  \<open>CHR 0x27\<close> is the apostrophe of the error
  message.
\<close>

definition parse_model_string :: "string \<Rightarrow> exn + (string \<times> string)" where
  "parse_model_string model_string =
     (case split_once ''://'' model_string of
        Some (provider, model_info) \<Rightarrow> Inr (provider, model_info)
      | None \<Rightarrow>
          (case split_once '':'' model_string of
             None \<Rightarrow>
               Inl (ValueError (''Invalid model string format: '' @ model_string @
                 ''. Expected '' @ [CHR 0x27] @ ''provider:model'' @ [CHR 0x27] @ '' or '' @
                 [CHR 0x27] @ ''provider://host:port/model'' @ [CHR 0x27]))
           | Some (provider, model) \<Rightarrow> Inr (provider, model)))"

text \<open>
  The libraries and the process environment \<open>model_config.py\<close> uses, as parameters:
  \<open>init_chat_model(model=..., **kwargs)\<close>; the \<open>ChatOpenAI\<close> constructor on base
  URL, model and API key; importing and constructing \<open>ChatOllama\<close> on base URL and
  model (\<open>ImportError\<close> when the package is missing); the built-in \<open>int\<close> on a string
  (\<open>None\<close> for its \<open>ValueError\<close>); and \<open>os.environ\<close>.  \<open>'m\<close> is a chat model
  object, \<open>'k\<close> the keyword arguments passed through.
\<close>

record ('m, 'k) backend =
  init_chat_model :: "string \<Rightarrow> 'k \<Rightarrow> exn + 'm"
  chat_openai :: "string \<Rightarrow> string \<Rightarrow> string \<Rightarrow> 'k \<Rightarrow> exn + 'm"
  chat_ollama :: "string \<Rightarrow> string \<Rightarrow> 'k \<Rightarrow> exn + 'm"
  py_int :: "string \<Rightarrow> int option"
  environ :: "string \<rightharpoonup> string"

text \<open>\<open>create_local_chat_model\<close>, check by check as the source makes them.\<close>

definition create_local_chat_model ::
  "('m, 'k) backend \<Rightarrow> string \<Rightarrow> string \<Rightarrow> 'k \<Rightarrow> exn + 'm" where
  "create_local_chat_model be provider model_info kwargs =
     (case str_find ''/'' model_info of
        None \<Rightarrow> Inl (ValueError (''Local model info must include model name: '' @ model_info))
      | Some slash_index \<Rightarrow>
          (let host_port = take slash_index model_info;
               model_name = drop (slash_index + 1) model_info
           in
             (case rsplit_once CHR '':'' host_port of
                None \<Rightarrow> Inl (ValueError (''Local model info must include port: '' @ model_info))
              | Some (host, port_text) \<Rightarrow>
                  (case py_int be port_text of
                     None \<Rightarrow> Inl (ValueError (''Invalid port number: '' @ port_text))
                   | Some port \<Rightarrow>
                       (if provider = ''lmstudio'' then
                          chat_openai be (''http://'' @ host @ '':'' @ str_int port @ ''/v1'')
                            model_name ''lm-studio'' kwargs
                        else if provider = ''ollama'' then
                          (case chat_ollama be (''http://'' @ host @ '':'' @ str_int port)
                                  model_name kwargs of
                             Inl (ImportError msg) \<Rightarrow>
                               chat_openai be (''http://'' @ host @ '':'' @ str_int port @ ''/v1'')
                                 model_name ''ollama'' kwargs
                           | r \<Rightarrow> r)
                        else Inl (ValueError (''Unsupported local provider: '' @ provider)))))))"

text \<open>
  \<open>init_chat_model_from_env\<close>: \<open>os.getenv(env_var, fallback_model)\<close>, then the
  \<open>try\<close> body on that string; on any exception the same body on the fallback string;
  on any exception of that, \<open>init_chat_model(model="openai:gpt-4o", **kwargs)\<close> outside
  every handler.  The messages printed on the way are not modelled.
\<close>

definition init_chat_model_from_env ::
  "('m, 'k) backend \<Rightarrow> string \<Rightarrow> string \<Rightarrow> 'k \<Rightarrow> exn + 'm" where
  "init_chat_model_from_env be env_var fallback_model kwargs =
     (let model_string = (case environ be env_var of None \<Rightarrow> fallback_model | Some v \<Rightarrow> v) in
        (case (case parse_model_string model_string of
                 Inl x \<Rightarrow> Inl x
               | Inr (provider, model_info) \<Rightarrow>
                   (if provider = ''lmstudio'' \<or> provider = ''ollama''
                    then create_local_chat_model be provider model_info kwargs
                    else init_chat_model be model_string kwargs)) of
           Inr model \<Rightarrow> Inr model
         | Inl e \<Rightarrow>
             (case (case parse_model_string fallback_model of
                      Inl x \<Rightarrow> Inl x
                    | Inr (provider, model_info) \<Rightarrow>
                        (if provider = ''lmstudio'' \<or> provider = ''ollama''
                         then create_local_chat_model be provider model_info kwargs
                         else init_chat_model be fallback_model kwargs)) of
                Inr model \<Rightarrow> Inr model
              | Inl fallback_error \<Rightarrow> init_chat_model be ''openai:gpt-4o'' kwargs)))"

text \<open>
  For stating the fallback chain: what one attempt on a model string does (the body of
  the \<open>try\<close>), and which string the first attempt uses.  The definition above does
  not use them; the theorem relates it to them.
\<close>

definition model_attempt :: "('m, 'k) backend \<Rightarrow> string \<Rightarrow> 'k \<Rightarrow> exn + 'm" where
  "model_attempt be model_string kwargs =
     (case parse_model_string model_string of
        Inl x \<Rightarrow> Inl x
      | Inr (provider, model_info) \<Rightarrow>
          (if provider \<in> {''lmstudio'', ''ollama''}
           then create_local_chat_model be provider model_info kwargs
           else init_chat_model be model_string kwargs))"

definition configured_string :: "('m, 'k) backend \<Rightarrow> string \<Rightarrow> string \<Rightarrow> string" where
  "configured_string be env_var fallback_model =
     (case environ be env_var of None \<Rightarrow> fallback_model | Some v \<Rightarrow> v)"

section \<open>The supervisor stage: dispatch, barrier and merge\<close>

text \<open>
  Modelled from the spec: \<open>research_supervisor.py\<close> (the supervisor stage, its research
  threads and the merge of their notes) is not among the sources.  Section 4.2 of the spec:
  each tool call of the decision turn requests one sub-task, and zero requested sub-tasks
  default to a single thread covering the full brief.
\<close>

definition sub_tasks :: "string \<Rightarrow> string list \<Rightarrow> string list" where
  "sub_tasks brief requested = (if requested = [] then [brief] else requested)"

text \<open>
  Modelled from the spec: a research thread is its sub-task description and its result
  notes (\<open>research_supervisor.py\<close> is not among the sources).  Threads are independent
  and communicate only through their final notes, so the notes of a thread are a function
  \<open>research\<close> of its own sub-task.  A completion schedule lists the dispatch indices of
  the threads in the order they finish; \<open>completions\<close> is what has arrived, in that
  order, each result tagged with the dispatch index of its thread.
\<close>

record research_thread =
  sub_task_description :: string
  result_notes :: "string list"

definition dispatch :: "(string \<Rightarrow> string list) \<Rightarrow> string list \<Rightarrow> research_thread list" where
  "dispatch research tasks =
     map (\<lambda>t. \<lparr>sub_task_description = t, result_notes = research t\<rparr>) tasks"

definition completions :: "research_thread list \<Rightarrow> nat list \<Rightarrow> (nat \<times> string list) list" where
  "completions threads schedule =
     map (\<lambda>i. (i, result_notes (threads ! i))) (filter (\<lambda>i. i < length threads) schedule)"

text \<open>
  Modelled from the spec: the barrier (\<open>research_supervisor.py\<close> is not among the
  sources): the stage blocks until all dispatched threads have completed; there is no
  early return on first completion.
\<close>

definition barrier :: "nat \<Rightarrow> (nat \<times> string list) list \<Rightarrow> bool" where
  "barrier n arrived = list_all (\<lambda>i. i \<in> set (map fst arrived)) [0..<n]"

text \<open>
  Modelled from the spec: the merge (\<open>research_supervisor.py\<close> is not among the
  sources): concatenate all threads' notes, in thread dispatch order, not completion
  order.
\<close>

definition merge_notes :: "nat \<Rightarrow> (nat \<times> string list) list \<Rightarrow> string list" where
  "merge_notes n arrived =
     concat (map (\<lambda>i. case map_of arrived i of None \<Rightarrow> [] | Some ns \<Rightarrow> ns) [0..<n])"

text \<open>
  Modelled from the spec: one invocation of the supervisor stage
  (\<open>research_supervisor.py\<close> is not among the sources): decide, dispatch, wait at the
  barrier, merge.  \<open>None\<close> while the barrier is closed (some thread has not completed
  under the given schedule).
\<close>

definition supervise ::
  "(string \<Rightarrow> string list) \<Rightarrow> string \<Rightarrow> string list \<Rightarrow> nat list \<Rightarrow> string list option" where
  "supervise research brief requested schedule =
     (let threads = dispatch research (sub_tasks brief requested);
          arrived = completions threads schedule
      in if barrier (length threads) arrived
         then Some (merge_notes (length threads) arrived)
         else None)"

section \<open>Readings of a run\<close>

text \<open>The number of node updates in a trace that write the key \<open>final_report\<close>.\<close>

fun writes_final_report :: "'n \<times> update option \<Rightarrow> bool" where
  "writes_final_report (n, None) = False"
| "writes_final_report (n, Some u) = (upd_final_report u \<noteq> None)"

definition final_report_writes :: "('n \<times> update option) list \<Rightarrow> nat" where
  "final_report_writes tr = length (filter writes_final_report tr)"

fun is_model_invoke :: "event \<Rightarrow> bool" where
  "is_model_invoke (ModelInvoke p) = True"
| "is_model_invoke ev = False"

fun is_tool_invoke :: "event \<Rightarrow> bool" where
  "is_tool_invoke (ToolInvoke n a) = True"
| "is_tool_invoke ev = False"

text \<open>The events a run added to the log it started with.\<close>

definition new_events :: "'w env \<Rightarrow> 'w env \<Rightarrow> event list" where
  "new_events e e' = drop (length (events e)) (events e')"

text \<open>The event of invoking the tool a call names.\<close>

definition call_event :: "tool_call \<Rightarrow> event" where
  "call_event tc = ToolInvoke (tc_name tc) (tc_args tc)"

text \<open>
  For stating sequential execution: the world after invoking the tools of a list of calls
  one after the other, each on the world the one before it left.
\<close>

fun world_after_calls :: "(string \<rightharpoonup> 'w tool) \<Rightarrow> tool_call list \<Rightarrow> 'w \<Rightarrow> 'w" where
  "world_after_calls tbn [] w = w"
| "world_after_calls tbn (tc # tcs) w =
     (case tbn (tc_name tc) of
        None \<Rightarrow> w
      | Some t \<Rightarrow> world_after_calls tbn tcs (snd (ainvoke t (tc_args tc) w)))"

text \<open>The prompt \<open>final_report_generation\<close> sends to the model.\<close>

definition report_prompt :: "'w gateway \<Rightarrow> agent_state \<Rightarrow> 'w env \<Rightarrow> string" where
  "report_prompt gw s e =
     final_report_generator_prompt gw
       (case research_brief s of None \<Rightarrow> [] | Some b \<Rightarrow> b)
       (join_newline (state_notes s))
       (get_today_str gw (world e))"

text \<open>
  The name and the tool-call id a message of the conversation carries: those of a tool
  message, nothing for a bare string.
\<close>

fun message_call :: "message \<Rightarrow> (string \<times> string) option" where
  "message_call (ToolMsg t) = Some (tm_name t, tm_tool_call_id t)"
| "message_call (RawText t) = None"

text \<open>
  The updates a trace holds, in order, and the values they assign to the key
  \<open>final_report\<close>, in order.
\<close>

fun log_updates :: "('n \<times> update option) list \<Rightarrow> update list" where
  "log_updates [] = []"
| "log_updates ((n, None) # l) = log_updates l"
| "log_updates ((n, Some u) # l) = u # log_updates l"

fun final_report_values :: "('n \<times> update option) list \<Rightarrow> report_value list" where
  "final_report_values [] = []"
| "final_report_values ((n, None) # l) = final_report_values l"
| "final_report_values ((n, Some u) # l) =
     (case upd_final_report u of
        None \<Rightarrow> final_report_values l
      | Some v \<Rightarrow> v # final_report_values l)"

text \<open>
  The partial update a stage hands to the orchestrator: its nodes' updates composed, in
  order, so that merging the composition once is merging the updates one after the other.
\<close>

definition merge_updates :: "update \<Rightarrow> update \<Rightarrow> update" where
  "merge_updates u1 u2 =
     \<lparr>upd_messages = upd_messages u1 @ upd_messages u2,
      upd_research_brief =
        (case upd_research_brief u2 of None \<Rightarrow> upd_research_brief u1 | Some b \<Rightarrow> Some b),
      upd_notes = upd_notes u1 @ upd_notes u2,
      upd_final_report =
        (case upd_final_report u2 of None \<Rightarrow> upd_final_report u1 | Some r \<Rightarrow> Some r)\<rparr>"

definition stage_output :: "('n \<times> update option) list \<Rightarrow> update" where
  "stage_output tr = foldl merge_updates empty_update (log_updates tr)"

section \<open>The workflow with its three stages\<close>

text \<open>
  Modelled from the spec: \<open>research_scope.py\<close> and \<open>research_supervisor.py\<close> are
  not among the sources.  The spec's DATA MODEL: each stage returns a partial update that
  the orchestrator merges into the shared state, and no stage mutates fields outside its
  declared write-set.  The scoping stage (4.1) writes the research brief and appends to the
  messages; the supervisor stage (4.2) writes the notes.  What the stages compute is a
  parameter: a function from the state and the outside world to an exception or an update,
  of which the stage keeps the fields of its write-set.
\<close>

type_synonym 'w node_fn = "agent_state \<Rightarrow> 'w env \<Rightarrow> (exn + update) \<times> 'w env"

definition scope_write_set :: "update \<Rightarrow> update" where
  "scope_write_set u =
     empty_update\<lparr>upd_messages := upd_messages u, upd_research_brief := upd_research_brief u\<rparr>"

definition supervisor_write_set :: "update \<Rightarrow> update" where
  "supervisor_write_set u = empty_update\<lparr>upd_notes := upd_notes u\<rparr>"

definition merged_stage :: "(update \<Rightarrow> update) \<Rightarrow> 'w node_fn \<Rightarrow> 'w stage" where
  "merged_stage write_set f s e =
     (case f s e of
        (Inl x, e') \<Rightarrow> (Inl x, e')
      | (Inr u, e') \<Rightarrow> (Inr (apply_update s (write_set u)), e'))"

text \<open>
  The stages of the compiled workflow: the two modelled stages and the report subgraph of
  \<open>research_report.py\<close>.
\<close>

definition workflow :: "'w gateway \<Rightarrow> 'w node_fn \<Rightarrow> 'w node_fn \<Rightarrow> 'w stages" where
  "workflow gw scope sv =
     \<lparr>scope_subgraph = merged_stage scope_write_set scope,
      supervisor_subgraph = merged_stage supervisor_write_set sv,
      report_subgraph = research_report gw\<rparr>"

text \<open>
  The merges of a workflow run: for each stage the orchestrator invokes, in order, the
  partial update it merges into the shared state (\<open>None\<close> when the stage raises).  The
  update of the report stage is the composition of its nodes' updates.
\<close>

definition workflow_merges ::
  "'w gateway \<Rightarrow> 'w node_fn \<Rightarrow> 'w node_fn \<Rightarrow> agent_state \<Rightarrow> 'w env \<Rightarrow>
   (agent_node \<times> update option) list" where
  "workflow_merges gw scope sv s0 e0 =
     (case scope s0 e0 of
        (Inl x, e1) \<Rightarrow> [(ScopeSubgraph, None)]
      | (Inr u1, e1) \<Rightarrow>
          (ScopeSubgraph, Some (scope_write_set u1)) #
          (let s1 = apply_update s0 (scope_write_set u1) in
             if route_after_scoping s1 = ''supervisor_subgraph'' then
               (case sv s1 e1 of
                  (Inl x, e2) \<Rightarrow> [(SupervisorSubgraph, None)]
                | (Inr u2, e2) \<Rightarrow>
                    (SupervisorSubgraph, Some (supervisor_write_set u2)) #
                    (case report_run gw (apply_update s1 (supervisor_write_set u2)) e2 of
                       (Inl x, e3, rtr) \<Rightarrow> [(ReportSubgraph, None)]
                     | (Inr s3, e3, rtr) \<Rightarrow> [(ReportSubgraph, Some (stage_output rtr))]))
             else []))"

text \<open>
  The trace of the report stage inside a workflow run: the nodes of the report subgraph
  that were entered, each with the update it made to the state the stage works on; empty
  when the run does not reach the report stage.
\<close>

definition report_stage_log ::
  "'w gateway \<Rightarrow> 'w node_fn \<Rightarrow> 'w node_fn \<Rightarrow> agent_state \<Rightarrow> 'w env \<Rightarrow>
   (report_node \<times> update option) list" where
  "report_stage_log gw scope sv s0 e0 =
     (case scope s0 e0 of
        (Inl x, e1) \<Rightarrow> []
      | (Inr u1, e1) \<Rightarrow>
          (let s1 = apply_update s0 (scope_write_set u1) in
             if route_after_scoping s1 = ''supervisor_subgraph'' then
               (case sv s1 e1 of
                  (Inl x, e2) \<Rightarrow> []
                | (Inr u2, e2) \<Rightarrow>
                    snd (snd (report_run gw (apply_update s1 (supervisor_write_set u2)) e2)))
             else []))"

section \<open>A concrete tool server and writer model\<close>

text \<open>
  A small instance for evaluating the definitions: the world is the list of paths written
  so far; \<open>write_file\<close> appends its path and reports it, \<open>read_file\<close> raises.  The
  prompt is the brief itself, and the writer's turn depends on it: \<open>save\<close> asks for two
  writes; \<open>broken\<close> for a write, a read and a write; \<open>unknown\<close> for a write, a
  tool the server does not offer and a write; anything else for no tool.
\<close>

definition arg_path :: "args \<Rightarrow> string" where
  "arg_path a = (case map_of a ''path'' of None \<Rightarrow> [] | Some p \<Rightarrow> p)"

definition write_file_tool :: "string list tool" where
  "write_file_tool =
     \<lparr>tool_name = ''write_file'',
      ainvoke = (\<lambda>a w. (Inr (''wrote '' @ arg_path a), w @ [arg_path a]))\<rparr>"

definition read_file_tool :: "string list tool" where
  "read_file_tool =
     \<lparr>tool_name = ''read_file'',
      ainvoke = (\<lambda>a w. (Inl (ToolException ''disk error''), w))\<rparr>"

definition demo_call :: "string \<Rightarrow> string \<Rightarrow> string \<Rightarrow> tool_call" where
  "demo_call n p i = \<lparr>tc_name = n, tc_args = [(''path'', p)], tc_id = i\<rparr>"

definition demo_turn :: "string \<Rightarrow> ai_message" where
  "demo_turn prompt =
     \<lparr>content = ''R'',
      tool_calls =
        (if prompt = ''save'' then
           [demo_call ''write_file'' ''a.md'' ''c1'', demo_call ''write_file'' ''b.md'' ''c2'']
         else if prompt = ''broken'' then
           [demo_call ''write_file'' ''a.md'' ''c1'', demo_call ''read_file'' ''a.md'' ''c2'',
            demo_call ''write_file'' ''b.md'' ''c3'']
         else if prompt = ''unknown'' then
           [demo_call ''write_file'' ''a.md'' ''c1'', demo_call ''delete_file'' ''a.md'' ''c2'',
            demo_call ''write_file'' ''b.md'' ''c3'']
         else [])\<rparr>"

definition demo_gateway :: "string list gateway" where
  "demo_gateway =
     \<lparr>get_tools = (\<lambda>w. (Inr [write_file_tool, read_file_tool], w)),
      writer_model = (\<lambda>tools prompt w. (Inr (demo_turn prompt), w)),
      final_report_generator_prompt = (\<lambda>brief findings date. brief),
      get_today_str = (\<lambda>w. ''Mon Jan 1, 2025'')\<rparr>"

definition demo_state :: "string \<Rightarrow> agent_state" where
  "demo_state brief =
     \<lparr>messages = [], research_brief = Some brief, state_notes = [''n1'', ''n2''],
      final_report = None\<rparr>"

definition demo_env :: "string list env" where
  "demo_env = \<lparr>world = [], events = [], mcp_client = False\<rparr>"

text \<open>
  The state and the outside world of the concrete instance right after the generation
  node, for a given brief.
\<close>

definition demo_generated :: "string \<Rightarrow> agent_state" where
  "demo_generated brief =
     \<lparr>messages = [RawText ''Here is the final report: R''], research_brief = Some brief,
      state_notes = [''n1'', ''n2''],
      final_report = Some (ReportMessage (demo_turn brief))\<rparr>"

definition demo_env_generated :: "string \<Rightarrow> string list env" where
  "demo_env_generated brief =
     \<lparr>world = [], events = [GetTools, ModelInvoke brief], mcp_client = True\<rparr>"

text \<open>
  The update the generation node of the concrete instance returns, and the outside world
  after the tool node has fetched the tool list and after it has then written \<open>a.md\<close>.
\<close>

definition demo_generation_update :: "string \<Rightarrow> update" where
  "demo_generation_update brief =
     \<lparr>upd_messages = [RawText ''Here is the final report: R''], upd_research_brief = None,
      upd_notes = [], upd_final_report = Some (ReportMessage (demo_turn brief))\<rparr>"

definition demo_env_fetched :: "string \<Rightarrow> string list env" where
  "demo_env_fetched brief =
     \<lparr>world = [], events = [GetTools, ModelInvoke brief, GetTools], mcp_client = True\<rparr>"

definition demo_env_written :: "string \<Rightarrow> string list env" where
  "demo_env_written brief =
     \<lparr>world = [''a.md''],
      events = [GetTools, ModelInvoke brief, GetTools,
                ToolInvoke ''write_file'' [(''path'', ''a.md'')]],
      mcp_client = True\<rparr>"

text \<open>
  The update the tool node of the concrete instance returns for the brief \<open>save\<close>, and
  the final state and outside world of that run.
\<close>

definition demo_tools_update :: update where
  "demo_tools_update =
     \<lparr>upd_messages =
        [ToolMsg \<lparr>tm_content = ''wrote a.md'', tm_name = ''write_file'',
                  tm_tool_call_id = ''c1''\<rparr>,
         ToolMsg \<lparr>tm_content = ''wrote b.md'', tm_name = ''write_file'',
                  tm_tool_call_id = ''c2''\<rparr>],
      upd_research_brief = None, upd_notes = [],
      upd_final_report = Some (ReportText ''R'')\<rparr>"

definition demo_saved_state :: agent_state where
  "demo_saved_state =
     \<lparr>messages =
        [RawText ''Here is the final report: R'',
         ToolMsg \<lparr>tm_content = ''wrote a.md'', tm_name = ''write_file'',
                  tm_tool_call_id = ''c1''\<rparr>,
         ToolMsg \<lparr>tm_content = ''wrote b.md'', tm_name = ''write_file'',
                  tm_tool_call_id = ''c2''\<rparr>],
      research_brief = Some ''save'', state_notes = [''n1'', ''n2''],
      final_report = Some (ReportText ''R'')\<rparr>"

definition demo_saved_env :: "string list env" where
  "demo_saved_env =
     \<lparr>world = [''a.md'', ''b.md''],
      events = [GetTools, ModelInvoke ''save'', GetTools,
                ToolInvoke ''write_file'' [(''path'', ''a.md'')],
                ToolInvoke ''write_file'' [(''path'', ''b.md'')]],
      mcp_client = True\<rparr>"

text \<open>
  A concrete backend for evaluating the model selection: only \<open>openai:gpt-4o\<close> can be
  initialised, the local constructors answer with the URL and the model name they were
  given, \<open>int\<close> knows one port, and the environment sets \<open>REPORT_MODEL\<close> to a string
  without a colon.
\<close>

definition demo_backend :: "(string, unit) backend" where
  "demo_backend =
     \<lparr>init_chat_model =
        (\<lambda>model kwargs.
           if model = ''openai:gpt-4o'' then Inr ''gpt-4o''
           else Inl (ValueError (''Unable to infer model provider for '' @ model))),
      chat_openai = (\<lambda>base_url model api_key kwargs. Inr (base_url @ '' '' @ model)),
      chat_ollama = (\<lambda>base_url model kwargs. Inl (ImportError ''langchain_ollama'')),
      py_int = (\<lambda>t. if t = ''1234'' then Some 1234 else None),
      environ = [''REPORT_MODEL'' \<mapsto> ''gpt4o'']\<rparr>"

text \<open>Three sub-tasks, and a researcher that returns two notes per sub-task.\<close>

definition demo_tasks :: "string list" where
  "demo_tasks = [''t1'', ''t2'', ''t3'']"

definition demo_research :: "string \<Rightarrow> string list" where
  "demo_research t = [t @ ''-a'', t @ ''-b'']"

text \<open>
  Stages for evaluating the top-level graph: scoping hands the state on as it is (the
  brief is already in the input state), the supervisor appends one note, the report stage
  is the report subgraph on the concrete gateway.
\<close>

definition demo_stages :: "string list stages" where
  "demo_stages =
     \<lparr>scope_subgraph = (\<lambda>s e. (Inr s, e)),
      supervisor_subgraph = (\<lambda>s e. (Inr (s\<lparr>state_notes := state_notes s @ [''n3'']\<rparr>), e)),
      report_subgraph = research_report demo_gateway\<rparr>"

text \<open>
  A concrete workflow: the request is the one message of the input state; scoping turns it
  into the brief, the supervisor returns one note, the report stage runs on the concrete
  gateway.
\<close>

definition demo_request :: "string \<Rightarrow> agent_state" where
  "demo_request t =
     \<lparr>messages = [RawText t], research_brief = None, state_notes = [], final_report = None\<rparr>"

definition demo_scope :: "string list node_fn" where
  "demo_scope s e =
     (Inr (empty_update
        \<lparr>upd_research_brief := (case messages s of [RawText t] \<Rightarrow> Some t | _ \<Rightarrow> None)\<rparr>), e)"

definition demo_supervisor :: "string list node_fn" where
  "demo_supervisor s e = (Inr (empty_update\<lparr>upd_notes := [''n3'']\<rparr>), e)"

definition demo_done_state :: agent_state where
  "demo_done_state =
     \<lparr>messages =
        [RawText ''save'', RawText ''Here is the final report: R'',
         ToolMsg \<lparr>tm_content = ''wrote a.md'', tm_name = ''write_file'',
                  tm_tool_call_id = ''c1''\<rparr>,
         ToolMsg \<lparr>tm_content = ''wrote b.md'', tm_name = ''write_file'',
                  tm_tool_call_id = ''c2''\<rparr>],
      research_brief = Some ''save'', state_notes = [''n3''],
      final_report = Some (ReportText ''R'')\<rparr>"

section \<open>Unfolding the two graphs\<close>

declare agent_from.simps [simp del]
declare report_from.simps [simp del]

lemma agent_from_end: "agent_from st AgentEnd s e tr = (Inr s, e, tr)"
  by (subst agent_from.simps) simp

lemma agent_from_node:
  "n \<noteq> AgentEnd \<Longrightarrow>
   agent_from st n s e tr =
     (case node_stage st n s e of
        (Inl x, e') \<Rightarrow> (Inl x, e', tr @ [n])
      | (Inr s', e') \<Rightarrow>
          (case agent_edge n s' of
             Inl x \<Rightarrow> (Inl x, e', tr @ [n])
           | Inr n' \<Rightarrow> agent_from st n' s' e' (tr @ [n])))"
  by (subst agent_from.simps) simp

lemma report_from_end: "report_from gw ReportEnd s e tr = (Inr s, e, tr)"
  by (subst report_from.simps) simp

lemma report_from_node:
  "n \<noteq> ReportEnd \<Longrightarrow>
   report_from gw n s e tr =
     (case report_node_fn gw n s e of
        (Inl x, e') \<Rightarrow> (Inl x, e', tr @ [(n, None)])
      | (Inr c, e') \<Rightarrow>
          report_from gw (cmd_goto c) (apply_update s (cmd_update c)) e'
            (tr @ [(n, Some (cmd_update c))]))"
  by (subst report_from.simps) simp

lemma route_supervisor_iff:
  "path_map (route_after_scoping s) = Some SupervisorSubgraph \<longleftrightarrow>
   (\<exists>b. research_brief s = Some b \<and> b \<noteq> [])"
  by (auto simp: route_after_scoping_def path_map_def split: option.splits)

lemma route_end_iff:
  "path_map (route_after_scoping s) = Some AgentEnd \<longleftrightarrow>
   (research_brief s = None \<or> research_brief s = Some [])"
  by (auto simp: route_after_scoping_def path_map_def split: option.splits)

lemma agent_trace_report:
  "\<exists>tr'. snd (snd (agent_from st ReportSubgraph s e tr)) = tr @ ReportSubgraph # tr'"
  by (auto simp: agent_from_node agent_from_end split: prod.splits sum.splits)

lemma agent_trace_supervisor:
  "\<exists>tr'. snd (snd (agent_from st SupervisorSubgraph s e tr)) = tr @ SupervisorSubgraph # tr'"
proof (cases "supervisor_subgraph st s e")
  case (Pair r e')
  show ?thesis
  proof (cases r)
    case (Inl x)
    with Pair show ?thesis by (simp add: agent_from_node)
  next
    case (Inr s')
    obtain tr' where
      "snd (snd (agent_from st ReportSubgraph s' e' (tr @ [SupervisorSubgraph]))) =
         (tr @ [SupervisorSubgraph]) @ ReportSubgraph # tr'"
      using agent_trace_report by blast
    with Pair Inr show ?thesis by (simp add: agent_from_node)
  qed
qed

section \<open>Routing after scoping\<close>

text \<open>
  Claim C1.  For every state \<open>s\<close> that the scoping stage returns, the conditional edge
  leads to the supervisor exactly when \<open>research_brief\<close> is present and not empty, and
  the supervisor is among the invoked nodes of the run exactly then.  When the brief is
  absent or empty, the run ends right after scoping with the state and the outside world
  as scoping left them: the only node invoked is the scoping stage, so neither the
  supervisor stage nor the report stage runs.
\<close>

theorem route_after_scoping_guard:
  assumes "scope_subgraph st s0 e0 = (Inr s, e)"
  shows "(path_map (route_after_scoping s) = Some SupervisorSubgraph \<longleftrightarrow>
            (\<exists>b. research_brief s = Some b \<and> b \<noteq> [])) \<and>
         (SupervisorSubgraph \<in> set (snd (snd (agent st s0 e0))) \<longleftrightarrow>
            (\<exists>b. research_brief s = Some b \<and> b \<noteq> [])) \<and>
         ((research_brief s = None \<or> research_brief s = Some []) \<longrightarrow>
            agent st s0 e0 = (Inr s, e, [ScopeSubgraph]))"
proof -
  let ?present = "\<exists>b. research_brief s = Some b \<and> b \<noteq> []"
  have stop: "agent st s0 e0 = (Inr s, e, [ScopeSubgraph])" if "\<not> ?present"
  proof -
    from that have "path_map (route_after_scoping s) = Some AgentEnd"
      by (cases "research_brief s") (auto simp: route_end_iff)
    with assms show ?thesis
      by (simp add: agent_def agent_from_node agent_from_end)
  qed
  have go: "SupervisorSubgraph \<in> set (snd (snd (agent st s0 e0)))" if "?present"
  proof -
    from that have r: "path_map (route_after_scoping s) = Some SupervisorSubgraph"
      by (simp add: route_supervisor_iff)
    obtain tr' where
      "snd (snd (agent_from st SupervisorSubgraph s e [ScopeSubgraph])) =
         [ScopeSubgraph] @ SupervisorSubgraph # tr'"
      using agent_trace_supervisor by blast
    with assms r show ?thesis
      by (simp add: agent_def agent_from_node)
  qed
  have "SupervisorSubgraph \<in> set (snd (snd (agent st s0 e0))) \<longleftrightarrow> ?present"
  proof
    assume "SupervisorSubgraph \<in> set (snd (snd (agent st s0 e0)))"
    then show ?present using stop by (cases ?present) auto
  qed (rule go)
  moreover have "(research_brief s = None \<or> research_brief s = Some []) \<longrightarrow>
      agent st s0 e0 = (Inr s, e, [ScopeSubgraph])"
    using stop by auto
  ultimately show ?thesis
    by (simp only: route_supervisor_iff simp_thms)
qed

theorem route_after_scoping_guard_witness:
  "scope_subgraph demo_stages (demo_state []) demo_env = (Inr (demo_state []), demo_env) \<and>
   research_brief (demo_state []) = Some [] \<and>
   path_map (route_after_scoping (demo_state [])) \<noteq> Some SupervisorSubgraph \<and>
   SupervisorSubgraph \<notin> set (snd (snd (agent demo_stages (demo_state []) demo_env))) \<and>
   agent demo_stages (demo_state []) demo_env = (Inr (demo_state []), demo_env, [ScopeSubgraph]) \<and>
   scope_subgraph demo_stages (demo_state ''plain'') demo_env =
     (Inr (demo_state ''plain''), demo_env) \<and>
   research_brief (demo_state ''plain'') = Some ''plain'' \<and>
   path_map (route_after_scoping (demo_state ''plain'')) = Some SupervisorSubgraph \<and>
   SupervisorSubgraph \<in> set (snd (snd (agent demo_stages (demo_state ''plain'') demo_env)))"
proof -
  have a: "scope_subgraph demo_stages (demo_state []) demo_env = (Inr (demo_state []), demo_env)"
    by (simp add: demo_stages_def)
  have b: "scope_subgraph demo_stages (demo_state ''plain'') demo_env =
      (Inr (demo_state ''plain''), demo_env)"
    by (simp add: demo_stages_def)
  have c: "research_brief (demo_state []) = Some []"
    and d: "research_brief (demo_state ''plain'') = Some ''plain''"
    by (simp_all add: demo_state_def)
  show ?thesis
    using route_after_scoping_guard [OF a] route_after_scoping_guard [OF b] a b c d
    by simp
qed

text \<open>
  Claim C9.  Two shared states that agree on \<open>research_brief\<close> get the same route
  after scoping, however they differ in messages, notes and final report: the routing
  function reads no other field.
\<close>

theorem route_depends_on_brief_only:
  assumes "research_brief s1 = research_brief s2"
  shows "route_after_scoping s1 = route_after_scoping s2"
  using assms by (simp add: route_after_scoping_def)

theorem route_depends_on_brief_only_witness:
  "research_brief (demo_state ''plain'') =
     research_brief
       \<lparr>messages = [RawText ''hello''], research_brief = Some ''plain'', state_notes = [],
        final_report = Some (ReportText ''old'')\<rparr> \<and>
   route_after_scoping (demo_state ''plain'') =
     route_after_scoping
       \<lparr>messages = [RawText ''hello''], research_brief = Some ''plain'', state_notes = [],
        final_report = Some (ReportText ''old'')\<rparr> \<and>
   route_after_scoping (demo_state ''plain'') = ''supervisor_subgraph''"
proof -
  have a: "research_brief (demo_state ''plain'') =
     research_brief
       \<lparr>messages = [RawText ''hello''], research_brief = Some ''plain'', state_notes = [],
        final_report = Some (ReportText ''old'')\<rparr>"
    by (simp add: demo_state_def)
  show ?thesis
    using route_depends_on_brief_only [OF a] a
    by (simp add: route_after_scoping_def demo_state_def)
qed

section \<open>The report subgraph, node by node\<close>

lemma apply_empty_update: "apply_update s empty_update = s"
  by (simp add: apply_update_def empty_update_def)

lemma final_report_generation_goto:
  "final_report_generation gw s e = (Inr c, e') \<Longrightarrow> cmd_goto c = FinalReportTools"
  by (auto simp: final_report_generation_def Let_def split: prod.splits sum.splits)

lemma final_report_tools_goto:
  "final_report_tools gw s e = (Inr c, e') \<Longrightarrow> cmd_goto c = ReportEnd"
  by (auto simp: final_report_tools_def
      split: option.splits report_value.splits if_splits prod.splits sum.splits)

lemma report_run_unfold:
  "report_run gw s e =
     (case final_report_generation gw s e of
        (Inl x, e1) \<Rightarrow> (Inl x, e1, [(FinalReportGeneration, None)])
      | (Inr c, e1) \<Rightarrow>
          (case final_report_tools gw (apply_update s (cmd_update c)) e1 of
             (Inl x, e2) \<Rightarrow>
               (Inl x, e2,
                [(FinalReportGeneration, Some (cmd_update c)), (FinalReportTools, None)])
           | (Inr c2, e2) \<Rightarrow>
               (Inr (apply_update (apply_update s (cmd_update c)) (cmd_update c2)), e2,
                [(FinalReportGeneration, Some (cmd_update c)),
                 (FinalReportTools, Some (cmd_update c2))])))"
proof (cases "final_report_generation gw s e")
  case (Pair r e1)
  show ?thesis
  proof (cases r)
    case (Inl x)
    with Pair show ?thesis by (simp add: report_run_def report_from_node)
  next
    case (Inr c)
    with Pair have g: "cmd_goto c = FinalReportTools"
      by (auto dest: final_report_generation_goto)
    show ?thesis
    proof (cases "final_report_tools gw (apply_update s (cmd_update c)) e1")
      case tools: (Pair r2 e2)
      show ?thesis
      proof (cases r2)
        case (Inl x)
        with Pair Inr g tools show ?thesis by (simp add: report_run_def report_from_node)
      next
        case inr2: (Inr c2)
        with tools have "cmd_goto c2 = ReportEnd"
          by (auto dest: final_report_tools_goto)
        with Pair Inr g tools inr2 show ?thesis
          by (simp add: report_run_def report_from_node report_from_end)
      qed
    qed
  qed
qed

text \<open>What a successful generation node returns, in terms of the two gateway calls.\<close>

lemma final_report_generation_Inr:
  assumes "final_report_generation gw s e = (Inr c, e')"
  shows "\<exists>tools e1 m.
           client_get_tools gw (get_mcp_client e) = (Inr tools, e1) \<and>
           model_ainvoke gw tools (report_prompt gw s e) e1 = (Inr m, e') \<and>
           cmd_update c = empty_update
             \<lparr>upd_final_report := Some (ReportMessage m),
              upd_messages := [RawText (''Here is the final report: '' @ content m)]\<rparr>"
proof (cases "client_get_tools gw (get_mcp_client e)")
  case (Pair r1 e1)
  show ?thesis
  proof (cases r1)
    case (Inl x)
    with assms Pair show ?thesis
      by (simp add: final_report_generation_def Let_def)
  next
    case (Inr tools)
    obtain r2 e2 where inv: "model_ainvoke gw tools (report_prompt gw s e) e1 = (r2, e2)"
      by (cases "model_ainvoke gw tools (report_prompt gw s e) e1")
    show ?thesis
    proof (cases r2)
      case (Inl x)
      with assms Pair Inr inv show ?thesis
        by (simp add: final_report_generation_def Let_def report_prompt_def)
    next
      case inr2: (Inr m)
      with assms Pair Inr inv have "e' = e2" and
        "cmd_update c = empty_update
             \<lparr>upd_final_report := Some (ReportMessage m),
              upd_messages := [RawText (''Here is the final report: '' @ content m)]\<rparr>"
        by (auto simp: final_report_generation_def Let_def report_prompt_def)
      with Pair Inr inv inr2 show ?thesis by blast
    qed
  qed
qed

lemma get_mcp_client_events [simp]: "events (get_mcp_client e) = events e"
  by (simp add: get_mcp_client_def)

lemma get_mcp_client_world [simp]: "world (get_mcp_client e) = world e"
  by (simp add: get_mcp_client_def)

lemma client_get_tools_events:
  "client_get_tools gw e = (r, e') \<Longrightarrow> events e' = events e @ [GetTools]"
  by (auto simp: client_get_tools_def split: prod.splits)

lemma model_ainvoke_events:
  "model_ainvoke gw tools p e = (r, e') \<Longrightarrow> events e' = events e @ [ModelInvoke p]"
  by (auto simp: model_ainvoke_def split: prod.splits)

lemma tool_ainvoke_events:
  "tool_ainvoke t tc e = (r, e') \<Longrightarrow> events e' = events e @ [call_event tc]"
  by (auto simp: tool_ainvoke_def call_event_def split: prod.splits)

lemma tool_ainvoke_world:
  "tool_ainvoke t tc e = (r, e') \<Longrightarrow> world e' = snd (ainvoke t (tc_args tc) (world e))"
  by (auto simp: tool_ainvoke_def split: prod.splits)

text \<open>The events of the generation node: one tool-list fetch, then at most one model call.\<close>

lemma final_report_generation_events:
  assumes "final_report_generation gw s e = (r, e')"
  shows "\<exists>evs. events e' = events e @ evs \<and> filter is_tool_invoke evs = [] \<and>
           length (filter is_model_invoke evs) \<le> 1 \<and>
           (case r of Inl x \<Rightarrow> True | Inr c \<Rightarrow> length (filter is_model_invoke evs) = 1)"
  using assms
  by (auto simp: final_report_generation_def Let_def
      split: prod.splits sum.splits
      dest!: client_get_tools_events model_ainvoke_events)

text \<open>The loop over the tool calls.\<close>

lemma run_tool_calls_append:
  "run_tool_calls tbn (xs @ ys) obs e =
     (case run_tool_calls tbn xs obs e of
        (Inl x, e') \<Rightarrow> (Inl x, e')
      | (Inr obs', e') \<Rightarrow> run_tool_calls tbn ys obs' e')"
  by (induction xs arbitrary: obs e) (auto split: option.splits prod.splits sum.splits)

lemma run_tool_calls_Inr:
  assumes "run_tool_calls tbn tcs obs e = (Inr obs', e')"
  shows "\<exists>new. obs' = obs @ new \<and> length new = length tcs \<and>
           events e' = events e @ map call_event tcs \<and>
           world e' = world_after_calls tbn tcs (world e)"
  using assms
proof (induction tcs arbitrary: obs e)
  case Nil
  then show ?case by simp
next
  case (Cons tc tcs)
  from Cons.prems obtain t ob e1 where
    t: "tbn (tc_name tc) = Some t" and
    inv: "tool_ainvoke t tc e = (Inr ob, e1)" and
    rest: "run_tool_calls tbn tcs (obs @ [ob]) e1 = (Inr obs', e')"
    by (auto split: option.splits prod.splits sum.splits)
  from Cons.IH [OF rest] obtain new where
    new: "obs' = (obs @ [ob]) @ new" "length new = length tcs"
      "events e' = events e1 @ map call_event tcs"
      "world e' = world_after_calls tbn tcs (world e1)"
    by blast
  from new(1,2) have "obs' = obs @ (ob # new) \<and> length (ob # new) = length (tc # tcs)"
    by simp
  moreover from new(3) tool_ainvoke_events [OF inv]
  have "events e' = events e @ map call_event (tc # tcs)"
    by simp
  moreover from new(4) tool_ainvoke_world [OF inv] t
  have "world e' = world_after_calls tbn (tc # tcs) (world e)"
    by simp
  ultimately show ?case by blast
qed

lemma run_tool_calls_events:
  "run_tool_calls tbn tcs obs e = (r, e') \<Longrightarrow>
   \<exists>k \<le> length tcs. events e' = events e @ map call_event (take k tcs)"
proof (induction tcs arbitrary: obs e)
  case Nil
  then show ?case by simp
next
  case (Cons tc tcs)
  show ?case
  proof (cases "tbn (tc_name tc)")
    case None
    with Cons.prems have "events e' = events e @ map call_event (take 0 (tc # tcs))"
      by auto
    then show ?thesis by blast
  next
    case (Some t)
    obtain r1 e1 where inv: "tool_ainvoke t tc e = (r1, e1)"
      by (cases "tool_ainvoke t tc e")
    note ev = tool_ainvoke_events [OF inv]
    show ?thesis
    proof (cases r1)
      case (Inl x)
      with Cons.prems Some inv ev
      have "events e' = events e @ map call_event (take 1 (tc # tcs))"
        by auto
      moreover have "1 \<le> length (tc # tcs)" by simp
      ultimately show ?thesis by blast
    next
      case (Inr ob)
      with Cons.prems Some inv
      have "run_tool_calls tbn tcs (obs @ [ob]) e1 = (r, e')"
        by simp
      from Cons.IH [OF this] obtain k where
        "k \<le> length tcs" "events e' = events e1 @ map call_event (take k tcs)"
        by blast
      with ev have "Suc k \<le> length (tc # tcs) \<and>
          events e' = events e @ map call_event (take (Suc k) (tc # tcs))"
        by simp
      then show ?thesis by blast
    qed
  qed
qed

lemma filter_model_call_events [simp]: "filter is_model_invoke (map call_event tcs) = []"
  by (induction tcs) (simp_all add: call_event_def)

text \<open>The events of the tool node: no model call among them.\<close>

lemma execute_tools_events:
  assumes "execute_tools gw tcs e = (r, e')"
  shows "\<exists>evs. events e' = events e @ evs \<and> filter is_model_invoke evs = []"
proof (cases "client_get_tools gw (get_mcp_client e)")
  case (Pair r1 e1)
  note ev1 = client_get_tools_events [OF Pair]
  show ?thesis
  proof (cases r1)
    case (Inl x)
    with assms Pair ev1 show ?thesis by (auto simp: execute_tools_def)
  next
    case (Inr tools)
    obtain r2 e2 where run: "run_tool_calls (tools_by_name tools) tcs [] e1 = (r2, e2)"
      by (cases "run_tool_calls (tools_by_name tools) tcs [] e1")
    from run_tool_calls_events [OF run] obtain k where
      "events e2 = events e1 @ map call_event (take k tcs)"
      by blast
    with ev1 have "events e2 = events e @ GetTools # map call_event (take k tcs)"
      by simp
    moreover from assms Pair Inr run have "e' = e2"
      by (auto simp: execute_tools_def split: sum.splits)
    ultimately show ?thesis by simp
  qed
qed

lemma final_report_tools_events:
  assumes "final_report_tools gw s e = (r, e')"
  shows "\<exists>evs. events e' = events e @ evs \<and> filter is_model_invoke evs = []"
  using assms
  by (auto simp: final_report_tools_def
      split: option.splits report_value.splits if_splits prod.splits sum.splits
      dest: execute_tools_events)

section \<open>Order of tool execution\<close>

lemma execute_tools_Inr:
  assumes "execute_tools gw tcs e = (Inr msgs, e')"
  shows "\<exists>tools e1 obs.
           client_get_tools gw (get_mcp_client e) = (Inr tools, e1) \<and>
           run_tool_calls (tools_by_name tools) tcs [] e1 = (Inr obs, e') \<and>
           length obs = length tcs \<and>
           msgs = map (\<lambda>(observation, tc).
                    \<lparr>tm_content = observation, tm_name = tc_name tc,
                     tm_tool_call_id = tc_id tc\<rparr>) (zip obs tcs)"
proof (cases "client_get_tools gw (get_mcp_client e)")
  case (Pair r1 e1)
  show ?thesis
  proof (cases r1)
    case (Inl x)
    with assms Pair show ?thesis by (simp add: execute_tools_def)
  next
    case (Inr tools)
    obtain r2 e2 where run: "run_tool_calls (tools_by_name tools) tcs [] e1 = (r2, e2)"
      by (cases "run_tool_calls (tools_by_name tools) tcs [] e1")
    show ?thesis
    proof (cases r2)
      case (Inl x)
      with assms Pair Inr run show ?thesis by (simp add: execute_tools_def)
    next
      case inr2: (Inr obs)
      from run_tool_calls_Inr [OF run [unfolded inr2]] have len: "length obs = length tcs"
        by auto
      from assms Pair Inr run inr2 have "e' = e2" and
        "msgs = map (\<lambda>(observation, tc).
                    \<lparr>tm_content = observation, tm_name = tc_name tc,
                     tm_tool_call_id = tc_id tc\<rparr>) (zip obs tcs)"
        by (auto simp: execute_tools_def)
      with Pair Inr run inr2 len show ?thesis by blast
    qed
  qed
qed

lemma message_call_zip:
  "length obs = length tcs \<Longrightarrow>
   map message_call
     (map ToolMsg
       (map (\<lambda>(observation, tc).
               \<lparr>tm_content = observation, tm_name = tc_name tc, tm_tool_call_id = tc_id tc\<rparr>)
          (zip obs tcs))) =
   map (\<lambda>tc. Some (tc_name tc, tc_id tc)) tcs"
  by (induction obs tcs rule: list_induct2) simp_all

text \<open>
  Claim C2.  When the stored assistant turn \<open>m\<close> carries tool calls and the tool node
  returns, the messages it appends are tool messages, as many as the tool calls and in
  their order, the \<open>i\<close>-th carrying the name and the id of the \<open>i\<close>-th call.  The
  gateway calls of the node are one fetch of the tool list followed by one invocation per
  tool call, in the order of the calls, and the outside world it leaves is the one obtained
  by invoking the tools one after the other in that order.
\<close>

theorem tool_messages_follow_tool_calls:
  assumes "final_report s = Some (ReportMessage m)"
    and "tool_calls m \<noteq> []"
    and "final_report_tools gw s e = (Inr c, e')"
  shows "length (upd_messages (cmd_update c)) = length (tool_calls m) \<and>
         map message_call (upd_messages (cmd_update c)) =
           map (\<lambda>tc. Some (tc_name tc, tc_id tc)) (tool_calls m) \<and>
         new_events e e' = GetTools # map call_event (tool_calls m) \<and>
         (\<exists>tools e1. client_get_tools gw (get_mcp_client e) = (Inr tools, e1) \<and>
            world e' = world_after_calls (tools_by_name tools) (tool_calls m) (world e1))"
proof -
  from assms obtain msgs where
    ex: "execute_tools gw (tool_calls m) e = (Inr msgs, e')" and
    upd: "upd_messages (cmd_update c) = map ToolMsg msgs"
    by (auto simp: final_report_tools_def empty_update_def split: prod.splits sum.splits)
  from execute_tools_Inr [OF ex] obtain tools e1 obs where
    tools: "client_get_tools gw (get_mcp_client e) = (Inr tools, e1)" and
    run: "run_tool_calls (tools_by_name tools) (tool_calls m) [] e1 = (Inr obs, e')" and
    len: "length obs = length (tool_calls m)" and
    msgs: "msgs = map (\<lambda>(observation, tc).
                    \<lparr>tm_content = observation, tm_name = tc_name tc,
                     tm_tool_call_id = tc_id tc\<rparr>) (zip obs (tool_calls m))"
    by blast
  from run_tool_calls_Inr [OF run] have
    ev: "events e' = events e1 @ map call_event (tool_calls m)" and
    w: "world e' = world_after_calls (tools_by_name tools) (tool_calls m) (world e1)"
    by auto
  from client_get_tools_events [OF tools] ev
  have "new_events e e' = GetTools # map call_event (tool_calls m)"
    by (simp add: new_events_def)
  moreover from upd msgs len have "length (upd_messages (cmd_update c)) = length (tool_calls m)"
    by simp
  moreover from upd msgs message_call_zip [OF len]
  have "map message_call (upd_messages (cmd_update c)) =
      map (\<lambda>tc. Some (tc_name tc, tc_id tc)) (tool_calls m)"
    by simp
  ultimately show ?thesis using tools w by blast
qed

lemmas demo_defs =
  demo_state_def demo_turn_def demo_gateway_def demo_env_def demo_call_def
  demo_generated_def demo_env_generated_def write_file_tool_def read_file_tool_def
  arg_path_def demo_generation_update_def demo_env_fetched_def demo_env_written_def
  demo_tools_update_def demo_saved_state_def demo_saved_env_def demo_request_def
  demo_scope_def demo_supervisor_def demo_done_state_def

lemmas report_defs =
  final_report_generation_def final_report_tools_def execute_tools_def
  client_get_tools_def model_ainvoke_def tool_ainvoke_def get_mcp_client_def
  tools_by_name_def empty_update_def apply_update_def

theorem tool_messages_follow_tool_calls_witness:
  "final_report (demo_generated ''save'') = Some (ReportMessage (demo_turn ''save'')) \<and>
   tool_calls (demo_turn ''save'') \<noteq> [] \<and>
   final_report_tools demo_gateway (demo_generated ''save'') (demo_env_generated ''save'') =
     (Inr \<lparr>cmd_goto = ReportEnd,
           cmd_update =
             \<lparr>upd_messages =
                [ToolMsg \<lparr>tm_content = ''wrote a.md'', tm_name = ''write_file'',
                          tm_tool_call_id = ''c1''\<rparr>,
                 ToolMsg \<lparr>tm_content = ''wrote b.md'', tm_name = ''write_file'',
                          tm_tool_call_id = ''c2''\<rparr>],
              upd_research_brief = None, upd_notes = [],
              upd_final_report = Some (ReportText ''R'')\<rparr>\<rparr>,
      \<lparr>world = [''a.md'', ''b.md''],
       events = [GetTools, ModelInvoke ''save'', GetTools,
                 ToolInvoke ''write_file'' [(''path'', ''a.md'')],
                 ToolInvoke ''write_file'' [(''path'', ''b.md'')]],
       mcp_client = True\<rparr>) \<and>
   new_events (demo_env_generated ''save'')
     \<lparr>world = [''a.md'', ''b.md''],
       events = [GetTools, ModelInvoke ''save'', GetTools,
                 ToolInvoke ''write_file'' [(''path'', ''a.md'')],
                 ToolInvoke ''write_file'' [(''path'', ''b.md'')]],
       mcp_client = True\<rparr> =
     GetTools # map call_event (tool_calls (demo_turn ''save''))"
proof -
  have a: "final_report (demo_generated ''save'') = Some (ReportMessage (demo_turn ''save''))"
    by (simp add: demo_generated_def)
  have b: "tool_calls (demo_turn ''save'') \<noteq> []"
    by (simp add: demo_turn_def)
  have c: "final_report_tools demo_gateway (demo_generated ''save'') (demo_env_generated ''save'') =
     (Inr \<lparr>cmd_goto = ReportEnd,
           cmd_update =
             \<lparr>upd_messages =
                [ToolMsg \<lparr>tm_content = ''wrote a.md'', tm_name = ''write_file'',
                          tm_tool_call_id = ''c1''\<rparr>,
                 ToolMsg \<lparr>tm_content = ''wrote b.md'', tm_name = ''write_file'',
                          tm_tool_call_id = ''c2''\<rparr>],
              upd_research_brief = None, upd_notes = [],
              upd_final_report = Some (ReportText ''R'')\<rparr>\<rparr>,
      \<lparr>world = [''a.md'', ''b.md''],
       events = [GetTools, ModelInvoke ''save'', GetTools,
                 ToolInvoke ''write_file'' [(''path'', ''a.md'')],
                 ToolInvoke ''write_file'' [(''path'', ''b.md'')]],
       mcp_client = True\<rparr>)"
    by (simp add: report_defs demo_defs)
  show ?thesis
    using tool_messages_follow_tool_calls [OF a b c] a b c by simp
qed

section \<open>Failing tool calls\<close>

text \<open>
  A run of the report stage whose generation node returns: what happens next is decided
  by the tool node on the state the generation node's update leaves.
\<close>

lemma report_run_tools_raise:
  assumes "final_report_generation gw s e = (Inr c, e1)"
    and "final_report_tools gw (apply_update s (cmd_update c)) e1 = (Inl x, e2)"
  shows "report_run gw s e =
           (Inl x, e2, [(FinalReportGeneration, Some (cmd_update c)), (FinalReportTools, None)])"
  using assms by (simp add: report_run_unfold)

lemma generated_final_report:
  assumes "final_report_generation gw s e = (Inr c, e1)"
    and "upd_final_report (cmd_update c) = Some (ReportMessage m)"
  shows "final_report (apply_update s (cmd_update c)) = Some (ReportMessage m)"
  using assms by (simp add: apply_update_def)

text \<open>
  Claim C3, as the code has it.  Let the generated turn \<open>m\<close> carry the tool calls
  \<open>pre @ tc # post\<close>, let the calls \<open>pre\<close> execute, and let the invocation of the
  tool that \<open>tc\<close> names raise \<open>x\<close>.  Then the exception is not turned into the
  content of a tool message: it leaves the tool node and the run of the report stage ends
  with \<open>x\<close>.  The tool node returns no update (no tool message is appended and the
  report text is not written), the calls \<open>post\<close> are not executed (the last gateway
  event is the failing invocation), and no final state is returned.
\<close>

theorem tool_error_aborts_report:
  assumes "final_report_generation gw s e = (Inr c, e1)"
    and "upd_final_report (cmd_update c) = Some (ReportMessage m)"
    and "tool_calls m = pre @ tc # post"
    and "client_get_tools gw (get_mcp_client e1) = (Inr tools, e2)"
    and "run_tool_calls (tools_by_name tools) pre [] e2 = (Inr obs, e3)"
    and "tools_by_name tools (tc_name tc) = Some t"
    and "ainvoke t (tc_args tc) (world e3) = (Inl x, w4)"
  shows "report_run gw s e =
           (Inl x,
            e3\<lparr>world := w4, events := events e3 @ [call_event tc]\<rparr>,
            [(FinalReportGeneration, Some (cmd_update c)), (FinalReportTools, None)])"
proof -
  have inv: "tool_ainvoke t tc e3 =
      (Inl x, e3\<lparr>world := w4, events := events e3 @ [call_event tc]\<rparr>)"
    using assms(7) by (simp add: tool_ainvoke_def call_event_def)
  have "run_tool_calls (tools_by_name tools) (pre @ tc # post) [] e2 =
      (Inl x, e3\<lparr>world := w4, events := events e3 @ [call_event tc]\<rparr>)"
    using assms(5,6) inv by (simp add: run_tool_calls_append)
  then have "execute_tools gw (tool_calls m) e1 =
      (Inl x, e3\<lparr>world := w4, events := events e3 @ [call_event tc]\<rparr>)"
    using assms(3,4) by (simp add: execute_tools_def)
  moreover have "tool_calls m \<noteq> []"
    using assms(3) by simp
  ultimately have "final_report_tools gw (apply_update s (cmd_update c)) e1 =
      (Inl x, e3\<lparr>world := w4, events := events e3 @ [call_event tc]\<rparr>)"
    using generated_final_report [OF assms(1,2)] by (simp add: final_report_tools_def)
  with assms(1) show ?thesis by (rule report_run_tools_raise)
qed

text \<open>
  Claim C4, as the code has it.  Let the generated turn \<open>m\<close> carry the tool calls
  \<open>pre @ tc # post\<close>, let the calls \<open>pre\<close> execute, and let the name of \<open>tc\<close>
  be no key of the freshly fetched tool list.  Then the lookup raises \<open>KeyError\<close> once
  (the call is neither invoked nor retried), and the error is fatal for the whole stage,
  not only for that call: the calls \<open>post\<close> are not executed, the tool node returns
  no update, and the run of the report stage ends with the error instead of a final state
  that holds the report.
\<close>

theorem unresolved_tool_aborts_report:
  assumes "final_report_generation gw s e = (Inr c, e1)"
    and "upd_final_report (cmd_update c) = Some (ReportMessage m)"
    and "tool_calls m = pre @ tc # post"
    and "client_get_tools gw (get_mcp_client e1) = (Inr tools, e2)"
    and "run_tool_calls (tools_by_name tools) pre [] e2 = (Inr obs, e3)"
    and "tools_by_name tools (tc_name tc) = None"
  shows "report_run gw s e =
           (Inl (KeyError (tc_name tc)), e3,
            [(FinalReportGeneration, Some (cmd_update c)), (FinalReportTools, None)]) \<and>
         new_events e2 e3 = map call_event pre"
proof -
  have "run_tool_calls (tools_by_name tools) (pre @ tc # post) [] e2 =
      (Inl (KeyError (tc_name tc)), e3)"
    using assms(5,6) by (simp add: run_tool_calls_append)
  then have "execute_tools gw (tool_calls m) e1 = (Inl (KeyError (tc_name tc)), e3)"
    using assms(3,4) by (simp add: execute_tools_def)
  moreover have "tool_calls m \<noteq> []"
    using assms(3) by simp
  ultimately have "final_report_tools gw (apply_update s (cmd_update c)) e1 =
      (Inl (KeyError (tc_name tc)), e3)"
    using generated_final_report [OF assms(1,2)] by (simp add: final_report_tools_def)
  with assms(1) have "report_run gw s e =
           (Inl (KeyError (tc_name tc)), e3,
            [(FinalReportGeneration, Some (cmd_update c)), (FinalReportTools, None)])"
    by (rule report_run_tools_raise)
  moreover from run_tool_calls_Inr [OF assms(5)] have "new_events e2 e3 = map call_event pre"
    by (auto simp: new_events_def)
  ultimately show ?thesis by simp
qed

lemma demo_generation:
  "final_report_generation demo_gateway (demo_state p) demo_env =
     (Inr \<lparr>cmd_goto = FinalReportTools, cmd_update = demo_generation_update p\<rparr>,
      demo_env_generated p)"
  by (simp add: report_defs demo_defs Let_def)

lemma demo_fetch:
  "client_get_tools demo_gateway (get_mcp_client (demo_env_generated p)) =
     (Inr [write_file_tool, read_file_tool], demo_env_fetched p)"
  by (simp add: report_defs demo_defs)

lemma demo_first_write:
  "run_tool_calls (tools_by_name [write_file_tool, read_file_tool])
     [demo_call ''write_file'' ''a.md'' ''c1''] [] (demo_env_fetched p) =
     (Inr [''wrote a.md''], demo_env_written p)"
  by (simp add: report_defs demo_defs)

theorem tool_error_aborts_report_witness:
  "final_report_generation demo_gateway (demo_state ''broken'') demo_env =
     (Inr \<lparr>cmd_goto = FinalReportTools, cmd_update = demo_generation_update ''broken''\<rparr>,
      demo_env_generated ''broken'') \<and>
   tool_calls (demo_turn ''broken'') =
     [demo_call ''write_file'' ''a.md'' ''c1''] @
     demo_call ''read_file'' ''a.md'' ''c2'' # [demo_call ''write_file'' ''b.md'' ''c3''] \<and>
   tools_by_name [write_file_tool, read_file_tool]
     (tc_name (demo_call ''read_file'' ''a.md'' ''c2'')) = Some read_file_tool \<and>
   ainvoke read_file_tool (tc_args (demo_call ''read_file'' ''a.md'' ''c2''))
     (world (demo_env_written ''broken'')) = (Inl (ToolException ''disk error''), [''a.md'']) \<and>
   report_run demo_gateway (demo_state ''broken'') demo_env =
     (Inl (ToolException ''disk error''),
      \<lparr>world = [''a.md''],
       events = [GetTools, ModelInvoke ''broken'', GetTools,
                 ToolInvoke ''write_file'' [(''path'', ''a.md'')],
                 ToolInvoke ''read_file'' [(''path'', ''a.md'')]],
       mcp_client = True\<rparr>,
      [(FinalReportGeneration, Some (demo_generation_update ''broken'')),
       (FinalReportTools, None)])"
proof -
  have m: "upd_final_report
      (cmd_update \<lparr>cmd_goto = FinalReportTools, cmd_update = demo_generation_update ''broken''\<rparr>) =
      Some (ReportMessage (demo_turn ''broken''))"
    by (simp add: demo_generation_update_def)
  have calls: "tool_calls (demo_turn ''broken'') =
     [demo_call ''write_file'' ''a.md'' ''c1''] @
     demo_call ''read_file'' ''a.md'' ''c2'' # [demo_call ''write_file'' ''b.md'' ''c3'']"
    by (simp add: demo_turn_def)
  have look: "tools_by_name [write_file_tool, read_file_tool]
     (tc_name (demo_call ''read_file'' ''a.md'' ''c2'')) = Some read_file_tool"
    by (simp add: tools_by_name_def demo_defs)
  have fail: "ainvoke read_file_tool (tc_args (demo_call ''read_file'' ''a.md'' ''c2''))
     (world (demo_env_written ''broken'')) = (Inl (ToolException ''disk error''), [''a.md''])"
    by (simp add: demo_defs)
  show ?thesis
    using tool_error_aborts_report
      [OF demo_generation m calls demo_fetch demo_first_write look fail]
      demo_generation calls look fail
    by (simp add: demo_env_written_def call_event_def demo_call_def)
qed

theorem tool_error_not_recorded:
  "report_run demo_gateway (demo_state ''broken'') demo_env =
     (Inl (ToolException ''disk error''),
      \<lparr>world = [''a.md''],
       events = [GetTools, ModelInvoke ''broken'', GetTools,
                 ToolInvoke ''write_file'' [(''path'', ''a.md'')],
                 ToolInvoke ''read_file'' [(''path'', ''a.md'')]],
       mcp_client = True\<rparr>,
      [(FinalReportGeneration, Some (demo_generation_update ''broken'')),
       (FinalReportTools, None)])"
  by (simp add: report_run_unfold report_defs demo_defs Let_def)

theorem unresolved_tool_aborts_report_witness:
  "final_report_generation demo_gateway (demo_state ''unknown'') demo_env =
     (Inr \<lparr>cmd_goto = FinalReportTools, cmd_update = demo_generation_update ''unknown''\<rparr>,
      demo_env_generated ''unknown'') \<and>
   tool_calls (demo_turn ''unknown'') =
     [demo_call ''write_file'' ''a.md'' ''c1''] @
     demo_call ''delete_file'' ''a.md'' ''c2'' # [demo_call ''write_file'' ''b.md'' ''c3''] \<and>
   tools_by_name [write_file_tool, read_file_tool]
     (tc_name (demo_call ''delete_file'' ''a.md'' ''c2'')) = None \<and>
   report_run demo_gateway (demo_state ''unknown'') demo_env =
     (Inl (KeyError ''delete_file''), demo_env_written ''unknown'',
      [(FinalReportGeneration, Some (demo_generation_update ''unknown'')),
       (FinalReportTools, None)]) \<and>
   new_events (demo_env_fetched ''unknown'') (demo_env_written ''unknown'') =
     [ToolInvoke ''write_file'' [(''path'', ''a.md'')]]"
proof -
  have m: "upd_final_report
      (cmd_update \<lparr>cmd_goto = FinalReportTools, cmd_update = demo_generation_update ''unknown''\<rparr>) =
      Some (ReportMessage (demo_turn ''unknown''))"
    by (simp add: demo_generation_update_def)
  have calls: "tool_calls (demo_turn ''unknown'') =
     [demo_call ''write_file'' ''a.md'' ''c1''] @
     demo_call ''delete_file'' ''a.md'' ''c2'' # [demo_call ''write_file'' ''b.md'' ''c3'']"
    by (simp add: demo_turn_def)
  have look: "tools_by_name [write_file_tool, read_file_tool]
     (tc_name (demo_call ''delete_file'' ''a.md'' ''c2'')) = None"
    by (simp add: tools_by_name_def demo_defs)
  show ?thesis
    using unresolved_tool_aborts_report
      [OF demo_generation m calls demo_fetch demo_first_write look]
      demo_generation calls look
    by (simp add: call_event_def demo_call_def)
qed

theorem unresolved_tool_blocks_report:
  "report_run demo_gateway (demo_state ''unknown'') demo_env =
     (Inl (KeyError ''delete_file''),
      \<lparr>world = [''a.md''],
       events = [GetTools, ModelInvoke ''unknown'', GetTools,
                 ToolInvoke ''write_file'' [(''path'', ''a.md'')]],
       mcp_client = True\<rparr>,
      [(FinalReportGeneration, Some (demo_generation_update ''unknown'')),
       (FinalReportTools, None)])"
  by (simp add: report_run_unfold report_defs demo_defs Let_def)

section \<open>One generation round\<close>

lemma final_report_tools_Inr:
  assumes "final_report s = Some (ReportMessage m)"
    and "final_report_tools gw s e = (Inr c, e')"
  shows "upd_final_report (cmd_update c) =
           (if tool_calls m = [] then None else Some (ReportText (content m))) \<and>
         (tool_calls m = [] \<longrightarrow> cmd_update c = empty_update \<and> e' = e)"
  using assms
  by (auto simp: final_report_tools_def empty_update_def split: prod.splits sum.splits)

lemma final_report_tools_Inl:
  assumes "final_report s = Some (ReportMessage m)"
    and "final_report_tools gw s e = (Inl x, e')"
  shows "tool_calls m \<noteq> []"
  using assms by (auto simp: final_report_tools_def)

lemma no_tool_invoke_dropWhile:
  "filter is_tool_invoke evs = [] \<Longrightarrow>
   dropWhile (\<lambda>ev. \<not> is_tool_invoke ev) (evs @ evs') =
   dropWhile (\<lambda>ev. \<not> is_tool_invoke ev) evs'"
  by (rule dropWhile_append2) (simp add: filter_empty_conv)

lemma no_model_invoke_dropWhile:
  "filter is_model_invoke evs = [] \<Longrightarrow> filter is_model_invoke (dropWhile P evs) = []"
  by (auto simp: filter_empty_conv dest: set_dropWhileD)

text \<open>
  The generation node in terms of what the tool server and the writer model return: when
  the tool list is fetched and the writer model returns the turn \<open>m\<close>, the node stores
  \<open>m\<close> itself under \<open>final_report\<close>.
\<close>

lemma final_report_generation_returns:
  assumes "client_get_tools gw (get_mcp_client e) = (Inr tools, e1)"
    and "writer_model gw tools (report_prompt gw s e) (world e1) = (Inr m, w2)"
  shows "final_report_generation gw s e =
           (Inr \<lparr>cmd_goto = FinalReportTools,
                 cmd_update = empty_update
                   \<lparr>upd_final_report := Some (ReportMessage m),
                    upd_messages := [RawText (''Here is the final report: '' @ content m)]\<rparr>\<rparr>,
            e1\<lparr>world := w2, events := events e1 @ [ModelInvoke (report_prompt gw s e)]\<rparr>)"
  using assms
  by (simp add: final_report_generation_def Let_def report_prompt_def model_ainvoke_def)

text \<open>
  Claim C5, evaluated on the code.  In every run of the report stage the generation node
  is entered exactly once, first, and the only node that can follow it is the tool node,
  after which the run ends: the generation node is never reached after the tool node.  The
  run invokes the model at most once, exactly once when it returns, and no model
  invocation follows a tool invocation.  When the writer model returns the turn \<open>m\<close>,
  that invocation is the only one, and a run that raises does so in the tool node, on a turn
  with tool calls.  A run that returns leaves under \<open>final_report\<close> the text
  \<open>content m\<close> when \<open>m\<close> carries tool calls, but the message object \<open>m\<close>
  itself, not its text, when \<open>m\<close> carries none.
\<close>

theorem single_generation_round:
  assumes "report_run gw s e = (r, e', tr)"
  shows "(map fst tr = [FinalReportGeneration] \<or>
          map fst tr = [FinalReportGeneration, FinalReportTools]) \<and>
         length (filter is_model_invoke (new_events e e')) \<le> 1 \<and>
         filter is_model_invoke
           (dropWhile (\<lambda>ev. \<not> is_tool_invoke ev) (new_events e e')) = [] \<and>
         (case r of
            Inl x \<Rightarrow> True
          | Inr s' \<Rightarrow> length (filter is_model_invoke (new_events e e')) = 1) \<and>
         (client_get_tools gw (get_mcp_client e) = (Inr tools, e1) \<and>
          writer_model gw tools (report_prompt gw s e) (world e1) = (Inr m, w2) \<longrightarrow>
            map fst tr = [FinalReportGeneration, FinalReportTools] \<and>
            filter is_model_invoke (new_events e e') = [ModelInvoke (report_prompt gw s e)] \<and>
            (case r of
               Inl x \<Rightarrow> tool_calls m \<noteq> []
             | Inr s' \<Rightarrow>
                 final_report s' =
                   Some (if tool_calls m = [] then ReportMessage m
                         else ReportText (content m))))"
proof (cases "final_report_generation gw s e")
  case (Pair r1 eg)
  from final_report_generation_events [OF Pair] obtain evs1 where
    ev1: "events eg = events e @ evs1" and
    nt1: "filter is_tool_invoke evs1 = []" and
    le1: "length (filter is_model_invoke evs1) \<le> 1" and
    eq1: "case r1 of Inl x \<Rightarrow> True | Inr c \<Rightarrow> length (filter is_model_invoke evs1) = 1"
    by blast
  show ?thesis
  proof (cases r1)
    case (Inl x)
    with assms Pair have res: "r = Inl x" "e' = eg" "tr = [(FinalReportGeneration, None)]"
      by (simp_all add: report_run_unfold)
    have new: "new_events e eg = evs1"
      using ev1 by (simp add: new_events_def)
    have "dropWhile (\<lambda>ev. \<not> is_tool_invoke ev) evs1 = []"
      using no_tool_invoke_dropWhile [OF nt1, of "[]"] by simp
    then have after: "filter is_model_invoke (dropWhile (\<lambda>ev. \<not> is_tool_invoke ev) evs1) = []"
      by (simp only: filter.simps)
    have "\<not> (client_get_tools gw (get_mcp_client e) = (Inr tools, e1) \<and>
          writer_model gw tools (report_prompt gw s e) (world e1) = (Inr m, w2))"
      using final_report_generation_returns [of gw e tools e1 s m w2] Pair Inl by auto
    with res new after le1 show ?thesis by simp
  next
    case (Inr c)
    with eq1 have one: "length (filter is_model_invoke evs1) = 1"
      by simp
    obtain r2 e2 where tools: "final_report_tools gw (apply_update s (cmd_update c)) eg = (r2, e2)"
      by (cases "final_report_tools gw (apply_update s (cmd_update c)) eg")
    from final_report_tools_events [OF tools] obtain evs2 where
      ev2: "events e2 = events eg @ evs2" and
      nm2: "filter is_model_invoke evs2 = []"
      by blast
    have new: "new_events e e2 = evs1 @ evs2"
      using ev1 ev2 by (simp add: new_events_def)
    have count: "length (filter is_model_invoke (new_events e e2)) = 1"
      using new one nm2 by simp
    have after: "filter is_model_invoke
        (dropWhile (\<lambda>ev. \<not> is_tool_invoke ev) (new_events e e2)) = []"
      using new no_tool_invoke_dropWhile [OF nt1] no_model_invoke_dropWhile [OF nm2]
      by simp
    have res: "e' = e2" "map fst tr = [FinalReportGeneration, FinalReportTools]"
      "r = (case r2 of Inl x \<Rightarrow> Inl x
            | Inr c2 \<Rightarrow> Inr (apply_update (apply_update s (cmd_update c)) (cmd_update c2)))"
      using assms Pair Inr tools by (auto simp: report_run_unfold split: sum.splits)
    have turn: "filter is_model_invoke (new_events e e') = [ModelInvoke (report_prompt gw s e)] \<and>
            (case r of
               Inl x \<Rightarrow> tool_calls m \<noteq> []
             | Inr s' \<Rightarrow>
                 final_report s' =
                   Some (if tool_calls m = [] then ReportMessage m
                         else ReportText (content m)))"
      if fetch: "client_get_tools gw (get_mcp_client e) = (Inr tools, e1)"
        and gen: "writer_model gw tools (report_prompt gw s e) (world e1) = (Inr m, w2)"
    proof -
      from final_report_generation_returns [OF fetch gen] Pair Inr have
        upd: "cmd_update c = empty_update
                   \<lparr>upd_final_report := Some (ReportMessage m),
                    upd_messages := [RawText (''Here is the final report: '' @ content m)]\<rparr>"
        and eg: "eg = e1\<lparr>world := w2, events := events e1 @ [ModelInvoke (report_prompt gw s e)]\<rparr>"
        by simp_all
      have fr: "final_report (apply_update s (cmd_update c)) = Some (ReportMessage m)"
        using upd by (simp add: apply_update_def)
      have "events eg = events e @ [GetTools, ModelInvoke (report_prompt gw s e)]"
        using eg client_get_tools_events [OF fetch] by simp
      with ev2 have "new_events e e2 = [GetTools, ModelInvoke (report_prompt gw s e)] @ evs2"
        by (simp add: new_events_def)
      with nm2 res(1)
      have a: "filter is_model_invoke (new_events e e') = [ModelInvoke (report_prompt gw s e)]"
        by simp
      show ?thesis
      proof (cases r2)
        case (Inl x)
        with final_report_tools_Inl [OF fr tools [unfolded Inl]] res(3) a show ?thesis
          by simp
      next
        case inr2: (Inr c2)
        from final_report_tools_Inr [OF fr tools [unfolded inr2]]
        have "upd_final_report (cmd_update c2) =
            (if tool_calls m = [] then None else Some (ReportText (content m)))"
          by simp
        with fr have "final_report (apply_update (apply_update s (cmd_update c)) (cmd_update c2)) =
            Some (if tool_calls m = [] then ReportMessage m else ReportText (content m))"
          by (simp add: apply_update_def)
        with inr2 res(3) a show ?thesis by simp
      qed
    qed
    have "case r of Inl x \<Rightarrow> True
          | Inr s' \<Rightarrow> length (filter is_model_invoke (new_events e e')) = 1"
      using count res(1) by (simp split: sum.splits)
    with res(1,2) count after turn show ?thesis by simp
  qed
qed

lemma demo_save_run:
  "report_run demo_gateway (demo_state ''save'') demo_env =
     (Inr demo_saved_state, demo_saved_env,
      [(FinalReportGeneration, Some (demo_generation_update ''save'')),
       (FinalReportTools, Some demo_tools_update)])"
  by (simp add: report_run_unfold report_defs demo_defs Let_def)

lemma demo_plain_run:
  "report_run demo_gateway (demo_state ''plain'') demo_env =
     (Inr (demo_generated ''plain''), demo_env_generated ''plain'',
      [(FinalReportGeneration, Some (demo_generation_update ''plain'')),
       (FinalReportTools, Some empty_update)])"
  by (simp add: report_run_unfold report_defs demo_defs Let_def)

lemma demo_fetch_first:
  "client_get_tools demo_gateway (get_mcp_client demo_env) =
     (Inr [write_file_tool, read_file_tool],
      \<lparr>world = [], events = [GetTools], mcp_client = True\<rparr>)"
  by (simp add: report_defs demo_defs)

lemma demo_writer:
  "writer_model demo_gateway [write_file_tool, read_file_tool]
     (report_prompt demo_gateway (demo_state p) demo_env)
     (world \<lparr>world = [], events = [GetTools], mcp_client = True\<rparr>) =
     (Inr (demo_turn p), [])"
  by (simp add: report_prompt_def demo_gateway_def demo_state_def)

theorem single_generation_round_witness:
  "report_run demo_gateway (demo_state ''plain'') demo_env =
     (Inr (demo_generated ''plain''), demo_env_generated ''plain'',
      [(FinalReportGeneration, Some (demo_generation_update ''plain'')),
       (FinalReportTools, Some empty_update)]) \<and>
   writer_model demo_gateway [write_file_tool, read_file_tool]
     (report_prompt demo_gateway (demo_state ''plain'') demo_env)
     (world \<lparr>world = [], events = [GetTools], mcp_client = True\<rparr>) =
     (Inr (demo_turn ''plain''), []) \<and>
   tool_calls (demo_turn ''plain'') = [] \<and>
   filter is_model_invoke (new_events demo_env (demo_env_generated ''plain'')) =
     [ModelInvoke ''plain''] \<and>
   final_report (demo_generated ''plain'') = Some (ReportMessage (demo_turn ''plain'')) \<and>
   final_report (demo_generated ''plain'') \<noteq> Some (ReportText (content (demo_turn ''plain''))) \<and>
   report_run demo_gateway (demo_state ''save'') demo_env =
     (Inr demo_saved_state, demo_saved_env,
      [(FinalReportGeneration, Some (demo_generation_update ''save'')),
       (FinalReportTools, Some demo_tools_update)]) \<and>
   tool_calls (demo_turn ''save'') \<noteq> [] \<and>
   filter is_model_invoke (new_events demo_env demo_saved_env) = [ModelInvoke ''save''] \<and>
   final_report demo_saved_state = Some (ReportText (content (demo_turn ''save'')))"
proof -
  have p: "report_prompt demo_gateway (demo_state p) demo_env = p" for p
    by (simp add: report_prompt_def demo_gateway_def demo_state_def)
  have t: "tool_calls (demo_turn ''plain'') = []" "tool_calls (demo_turn ''save'') \<noteq> []"
    by (simp_all add: demo_turn_def)
  show ?thesis
    using single_generation_round [OF demo_plain_run,
        of "[write_file_tool, read_file_tool]"
          "\<lparr>world = [], events = [GetTools], mcp_client = True\<rparr>" "demo_turn ''plain''" "[]"]
      single_generation_round [OF demo_save_run,
        of "[write_file_tool, read_file_tool]"
          "\<lparr>world = [], events = [GetTools], mcp_client = True\<rparr>" "demo_turn ''save''" "[]"]
      demo_plain_run demo_save_run demo_fetch_first demo_writer t
    by (simp add: p)
qed

section \<open>A turn without tool calls\<close>

text \<open>
  Claim C6, evaluated on the code.  When the generated turn \<open>m\<close> carries no tool calls,
  the run ends right after the generation node's update: the tool node returns the empty
  update without touching the outside world, so the gateway calls of the whole run are
  the one tool-list fetch and the one model invocation that produced the turn.  The final
  state, however, holds under \<open>final_report\<close> the assistant message object that the
  generation node stored, not the message's text: the branch of \<open>final_report_tools\<close>
  that replaces it by \<open>final_report.content\<close> is the one for turns with tool calls.
\<close>

theorem report_without_tool_calls:
  assumes "final_report_generation gw s e = (Inr c, e1)"
    and "upd_final_report (cmd_update c) = Some (ReportMessage m)"
    and "tool_calls m = []"
  shows "report_run gw s e =
           (Inr (apply_update s (cmd_update c)), e1,
            [(FinalReportGeneration, Some (cmd_update c)),
             (FinalReportTools, Some empty_update)]) \<and>
         new_events e e1 = [GetTools, ModelInvoke (report_prompt gw s e)] \<and>
         final_report (apply_update s (cmd_update c)) = Some (ReportMessage m) \<and>
         final_report (apply_update s (cmd_update c)) \<noteq> Some (ReportText (content m))"
proof -
  have fr: "final_report (apply_update s (cmd_update c)) = Some (ReportMessage m)"
    using assms(2) by (simp add: apply_update_def)
  then have "final_report_tools gw (apply_update s (cmd_update c)) e1 =
      (Inr \<lparr>cmd_goto = ReportEnd, cmd_update = empty_update\<rparr>, e1)"
    using assms(3) by (simp add: final_report_tools_def)
  with assms(1) have "report_run gw s e =
           (Inr (apply_update s (cmd_update c)), e1,
            [(FinalReportGeneration, Some (cmd_update c)),
             (FinalReportTools, Some empty_update)])"
    by (simp add: report_run_unfold apply_empty_update)
  moreover from final_report_generation_Inr [OF assms(1)] obtain tools e0 m' where
    "client_get_tools gw (get_mcp_client e) = (Inr tools, e0)"
    "model_ainvoke gw tools (report_prompt gw s e) e0 = (Inr m', e1)"
    by blast
  then have "new_events e e1 = [GetTools, ModelInvoke (report_prompt gw s e)]"
    by (auto simp: new_events_def dest!: client_get_tools_events model_ainvoke_events)
  ultimately show ?thesis using fr by simp
qed

theorem report_without_tool_calls_witness:
  "final_report_generation demo_gateway (demo_state ''plain'') demo_env =
     (Inr \<lparr>cmd_goto = FinalReportTools, cmd_update = demo_generation_update ''plain''\<rparr>,
      demo_env_generated ''plain'') \<and>
   tool_calls (demo_turn ''plain'') = [] \<and>
   report_run demo_gateway (demo_state ''plain'') demo_env =
     (Inr (demo_generated ''plain''), demo_env_generated ''plain'',
      [(FinalReportGeneration, Some (demo_generation_update ''plain'')),
       (FinalReportTools, Some empty_update)]) \<and>
   new_events demo_env (demo_env_generated ''plain'') = [GetTools, ModelInvoke ''plain''] \<and>
   final_report (demo_generated ''plain'') =
     Some (ReportMessage \<lparr>content = ''R'', tool_calls = []\<rparr>) \<and>
   final_report (demo_generated ''plain'') \<noteq> Some (ReportText ''R'')"
proof -
  have m: "upd_final_report
      (cmd_update \<lparr>cmd_goto = FinalReportTools, cmd_update = demo_generation_update ''plain''\<rparr>) =
      Some (ReportMessage (demo_turn ''plain''))"
    by (simp add: demo_generation_update_def)
  have none: "tool_calls (demo_turn ''plain'') = []"
    by (simp add: demo_turn_def)
  have st: "apply_update (demo_state ''plain'') (demo_generation_update ''plain'') =
      demo_generated ''plain''"
    by (simp add: apply_update_def demo_defs)
  have pr: "report_prompt demo_gateway (demo_state ''plain'') demo_env = ''plain''"
    by (simp add: report_prompt_def demo_defs)
  show ?thesis
    using report_without_tool_calls [OF demo_generation m none] demo_generation none
    by (simp add: st pr demo_turn_def)
qed

section \<open>Assignments of the final report\<close>

lemma merge_empty_update: "merge_updates empty_update u = u"
  by (cases u) (auto simp: merge_updates_def empty_update_def split: option.splits)

lemma apply_merge_updates:
  "apply_update (apply_update s u1) u2 = apply_update s (merge_updates u1 u2)"
  by (auto simp: apply_update_def merge_updates_def split: option.splits)

lemma route_path:
  "path_map (route_after_scoping s) =
     (if route_after_scoping s = ''supervisor_subgraph'' then Some SupervisorSubgraph
      else Some AgentEnd)"
  by (simp add: route_after_scoping_def path_map_def split: option.splits)

text \<open>The workflow, stage by stage.\<close>

lemma agent_workflow_unfold:
  "agent (workflow gw scope sv) s0 e0 =
     (case scope s0 e0 of
        (Inl x, e1) \<Rightarrow> (Inl x, e1, [ScopeSubgraph])
      | (Inr u1, e1) \<Rightarrow>
          (if route_after_scoping (apply_update s0 (scope_write_set u1)) = ''supervisor_subgraph''
           then
             (case sv (apply_update s0 (scope_write_set u1)) e1 of
                (Inl x, e2) \<Rightarrow> (Inl x, e2, [ScopeSubgraph, SupervisorSubgraph])
              | (Inr u2, e2) \<Rightarrow>
                  (case report_run gw
                          (apply_update (apply_update s0 (scope_write_set u1))
                             (supervisor_write_set u2)) e2 of
                     (r, e3, rtr) \<Rightarrow>
                       (r, e3, [ScopeSubgraph, SupervisorSubgraph, ReportSubgraph])))
           else (Inr (apply_update s0 (scope_write_set u1)), e1, [ScopeSubgraph])))"
  by (auto simp: agent_def agent_from_node agent_from_end workflow_def merged_stage_def
      research_report_def route_path
      split: prod.splits sum.splits)

text \<open>
  The report stage alone: its output, merged once, gives its final state, and the values
  its nodes assign to \<open>final_report\<close> are the generated message and, for a message
  with tool calls whose execution returns, the message's text.
\<close>

lemma report_run_log:
  assumes "report_run gw s e = (r, e', rtr)"
  shows "(case r of
            Inl x \<Rightarrow> True
          | Inr s' \<Rightarrow>
              s' = apply_update s (stage_output rtr) \<and>
              upd_final_report (stage_output rtr) \<noteq> None) \<and>
         rtr \<noteq> [] \<and>
         ((final_report_values rtr = [] \<and> (\<exists>x. r = Inl x)) \<or>
          (\<exists>m. final_report_values rtr = [ReportMessage m] \<and>
               (if tool_calls m = [] then \<exists>s'. r = Inr s' else \<exists>x. r = Inl x)) \<or>
          (\<exists>m. final_report_values rtr = [ReportMessage m, ReportText (content m)] \<and>
               tool_calls m \<noteq> [] \<and> (\<exists>s'. r = Inr s')))"
proof (cases "final_report_generation gw s e")
  case (Pair r1 eg)
  show ?thesis
  proof (cases r1)
    case (Inl x)
    with assms Pair have "r = Inl x" "rtr = [(FinalReportGeneration, None)]"
      by (simp_all add: report_run_unfold)
    then show ?thesis by simp
  next
    case (Inr c)
    from final_report_generation_Inr [OF Pair [unfolded Inr]] obtain m where
      upd: "cmd_update c = empty_update
             \<lparr>upd_final_report := Some (ReportMessage m),
              upd_messages := [RawText (''Here is the final report: '' @ content m)]\<rparr>"
      by blast
    then have w1: "upd_final_report (cmd_update c) = Some (ReportMessage m)"
      by simp
    have fr: "final_report (apply_update s (cmd_update c)) = Some (ReportMessage m)"
      using w1 by (simp add: apply_update_def)
    obtain r2 e2 where tools: "final_report_tools gw (apply_update s (cmd_update c)) eg = (r2, e2)"
      by (cases "final_report_tools gw (apply_update s (cmd_update c)) eg")
    show ?thesis
    proof (cases r2)
      case (Inl x)
      with assms Pair Inr tools have "r = Inl x"
        "rtr = [(FinalReportGeneration, Some (cmd_update c)), (FinalReportTools, None)]"
        by (simp_all add: report_run_unfold)
      moreover have "tool_calls m \<noteq> []"
        using tools Inl fr by (auto simp: final_report_tools_def)
      ultimately show ?thesis using w1 by simp
    next
      case inr2: (Inr c2)
      with assms Pair Inr tools have
        res: "r = Inr (apply_update (apply_update s (cmd_update c)) (cmd_update c2))"
        "rtr = [(FinalReportGeneration, Some (cmd_update c)),
               (FinalReportTools, Some (cmd_update c2))]"
        by (simp_all add: report_run_unfold)
      from final_report_tools_Inr [OF fr tools [unfolded inr2]]
      have w2: "upd_final_report (cmd_update c2) =
          (if tool_calls m = [] then None else Some (ReportText (content m)))"
        by simp
      have out: "stage_output rtr = merge_updates (cmd_update c) (cmd_update c2)"
        using res(2) by (simp add: stage_output_def merge_empty_update)
      have "upd_final_report (stage_output rtr) \<noteq> None"
        using out w1 w2 by (simp add: merge_updates_def)
      with res out w1 w2 show ?thesis
        by (simp add: apply_merge_updates)
    qed
  qed
qed

lemma scope_write_set_final_report [simp]: "upd_final_report (scope_write_set u) = None"
  by (simp add: scope_write_set_def empty_update_def)

lemma supervisor_write_set_final_report [simp]: "upd_final_report (supervisor_write_set u) = None"
  by (simp add: supervisor_write_set_def empty_update_def)

text \<open>
  Claim C7, as the code has it.  Take any complete run of the workflow, the scoping and
  supervisor stages keeping to the write-sets the spec declares.  The orchestrator merges
  one partial update per stage it invokes, and the final state is the input state with
  exactly these updates merged.  Among them only the update of the report stage writes
  \<open>final_report\<close>: no other stage or step writes it, and the shared state of the
  workflow receives it at most once, exactly once in a run that completes the report stage.
  Inside the report stage, however, the field is assigned up to twice: first by
  \<open>final_report_generation\<close> (the generated assistant message), and a second time by
  \<open>final_report_tools\<close> (that message's text) when the message carries tool calls and
  the tool node returns.
\<close>

theorem final_report_assignments:
  assumes "agent (workflow gw scope sv) s0 e0 = (r, e', tr)"
  shows "map fst (workflow_merges gw scope sv s0 e0) = tr \<and>
         (case r of
            Inl x \<Rightarrow> True
          | Inr s' \<Rightarrow>
              s' = foldl apply_update s0 (log_updates (workflow_merges gw scope sv s0 e0))) \<and>
         (\<forall>entry \<in> set (workflow_merges gw scope sv s0 e0).
            writes_final_report entry \<longrightarrow> fst entry = ReportSubgraph) \<and>
         final_report_writes (workflow_merges gw scope sv s0 e0) =
           (if (\<exists>s'. r = Inr s') \<and> ReportSubgraph \<in> set tr then 1 else 0) \<and>
         length (final_report_values (report_stage_log gw scope sv s0 e0)) \<le> 2 \<and>
         (final_report_values (report_stage_log gw scope sv s0 e0) = [] \<or>
          (\<exists>m. final_report_values (report_stage_log gw scope sv s0 e0) = [ReportMessage m] \<and>
               (if tool_calls m = [] then \<exists>s'. r = Inr s' else \<exists>x. r = Inl x)) \<or>
          (\<exists>m. final_report_values (report_stage_log gw scope sv s0 e0) =
                 [ReportMessage m, ReportText (content m)] \<and>
               tool_calls m \<noteq> [] \<and> (\<exists>s'. r = Inr s')))"
proof (cases "scope s0 e0")
  case (Pair r1 e1)
  show ?thesis
  proof (cases r1)
    case (Inl x)
    with assms Pair show ?thesis
      by (auto simp: agent_workflow_unfold workflow_merges_def report_stage_log_def
          final_report_writes_def)
  next
    case (Inr u1)
    let ?s1 = "apply_update s0 (scope_write_set u1)"
    show ?thesis
    proof (cases "route_after_scoping ?s1 = ''supervisor_subgraph''")
      case False
      with assms Pair Inr show ?thesis
        by (auto simp: agent_workflow_unfold workflow_merges_def report_stage_log_def
            final_report_writes_def Let_def)
    next
      case True
      obtain r2 e2 where sv: "sv ?s1 e1 = (r2, e2)"
        by (cases "sv ?s1 e1")
      show ?thesis
      proof (cases r2)
        case (Inl x)
        with assms Pair Inr True sv show ?thesis
          by (auto simp: agent_workflow_unfold workflow_merges_def report_stage_log_def
              final_report_writes_def Let_def)
      next
        case inr2: (Inr u2)
        let ?s2 = "apply_update ?s1 (supervisor_write_set u2)"
        obtain r3 e3 rtr where run: "report_run gw ?s2 e2 = (r3, e3, rtr)"
          by (cases "report_run gw ?s2 e2")
        from assms Pair Inr True sv inr2 run have
          res: "r = r3" "tr = [ScopeSubgraph, SupervisorSubgraph, ReportSubgraph]"
          by (simp_all add: agent_workflow_unfold)
        have log: "report_stage_log gw scope sv s0 e0 = rtr"
          using Pair Inr True sv inr2 run by (simp add: report_stage_log_def Let_def)
        have merges: "workflow_merges gw scope sv s0 e0 =
            [(ScopeSubgraph, Some (scope_write_set u1)),
             (SupervisorSubgraph, Some (supervisor_write_set u2)),
             (ReportSubgraph,
              case r3 of Inl x \<Rightarrow> None | Inr s3 \<Rightarrow> Some (stage_output rtr))]"
          using Pair Inr True sv inr2 run
          by (simp add: workflow_merges_def Let_def split: sum.splits)
        note rl = report_run_log [OF run]
        have c1: "map fst (workflow_merges gw scope sv s0 e0) = tr"
          using merges res by simp
        have c2: "case r of
            Inl x \<Rightarrow> True
          | Inr s' \<Rightarrow>
              s' = foldl apply_update s0 (log_updates (workflow_merges gw scope sv s0 e0))"
          using rl res(1) merges by (cases r3) simp_all
        have c3: "\<forall>entry \<in> set (workflow_merges gw scope sv s0 e0).
            writes_final_report entry \<longrightarrow> fst entry = ReportSubgraph"
          using merges by simp
        have c4: "final_report_writes (workflow_merges gw scope sv s0 e0) =
            (if (\<exists>s'. r = Inr s') \<and> ReportSubgraph \<in> set tr then 1 else 0)"
          using rl res merges by (cases r3) (simp_all add: final_report_writes_def)
        have c6: "final_report_values (report_stage_log gw scope sv s0 e0) = [] \<or>
          (\<exists>m. final_report_values (report_stage_log gw scope sv s0 e0) = [ReportMessage m] \<and>
               (if tool_calls m = [] then \<exists>s'. r = Inr s' else \<exists>x. r = Inl x)) \<or>
          (\<exists>m. final_report_values (report_stage_log gw scope sv s0 e0) =
                 [ReportMessage m, ReportText (content m)] \<and>
               tool_calls m \<noteq> [] \<and> (\<exists>s'. r = Inr s'))"
          using rl unfolding log res(1) by blast
        then have c5: "length (final_report_values (report_stage_log gw scope sv s0 e0)) \<le> 2"
          by auto
        from c1 c2 c3 c4 c5 c6 show ?thesis
          by (intro conjI)
      qed
    qed
  qed
qed

lemma demo_workflow_run:
  "agent (workflow demo_gateway demo_scope demo_supervisor) (demo_request ''save'') demo_env =
     (Inr demo_done_state, demo_saved_env,
      [ScopeSubgraph, SupervisorSubgraph, ReportSubgraph])"
  by (simp add: agent_workflow_unfold report_run_unfold report_defs demo_defs Let_def
      scope_write_set_def supervisor_write_set_def route_after_scoping_def)

lemma demo_report_stage_log:
  "final_report_values
     (report_stage_log demo_gateway demo_scope demo_supervisor (demo_request ''save'') demo_env) =
     [ReportMessage (demo_turn ''save''), ReportText ''R'']"
  by (simp add: report_stage_log_def report_run_unfold report_defs demo_defs Let_def
      scope_write_set_def supervisor_write_set_def route_after_scoping_def)

theorem final_report_assignments_witness:
  "agent (workflow demo_gateway demo_scope demo_supervisor) (demo_request ''save'') demo_env =
     (Inr demo_done_state, demo_saved_env,
      [ScopeSubgraph, SupervisorSubgraph, ReportSubgraph]) \<and>
   map fst
     (workflow_merges demo_gateway demo_scope demo_supervisor (demo_request ''save'') demo_env) =
     [ScopeSubgraph, SupervisorSubgraph, ReportSubgraph] \<and>
   demo_done_state =
     foldl apply_update (demo_request ''save'')
       (log_updates
         (workflow_merges demo_gateway demo_scope demo_supervisor (demo_request ''save'')
            demo_env)) \<and>
   final_report_writes
     (workflow_merges demo_gateway demo_scope demo_supervisor (demo_request ''save'') demo_env) =
     1 \<and>
   final_report_values
     (report_stage_log demo_gateway demo_scope demo_supervisor (demo_request ''save'') demo_env) =
     [ReportMessage (demo_turn ''save''), ReportText ''R''] \<and>
   tool_calls (demo_turn ''save'') \<noteq> []"
  using final_report_assignments [OF demo_workflow_run] demo_workflow_run demo_report_stage_log
  by (simp add: demo_turn_def)

theorem final_report_assigned_twice_in_workflow:
  "snd (snd (agent (workflow demo_gateway demo_scope demo_supervisor) (demo_request ''save'')
       demo_env)) = [ScopeSubgraph, SupervisorSubgraph, ReportSubgraph] \<and>
   final_report_values
     (report_stage_log demo_gateway demo_scope demo_supervisor (demo_request ''save'') demo_env) =
     [ReportMessage (demo_turn ''save''), ReportText ''R'']"
  by (simp add: agent_workflow_unfold report_stage_log_def report_run_unfold report_defs
      demo_defs Let_def scope_write_set_def supervisor_write_set_def route_after_scoping_def)

section \<open>Merge order of the supervisor stage\<close>

lemma map_of_tagged:
  "map_of (map (\<lambda>i. (i, f i)) xs) i = (if i \<in> set xs then Some (f i) else None)"
  by (induction xs) auto

lemma length_dispatch [simp]: "length (dispatch research tasks) = length tasks"
  by (simp add: dispatch_def)

lemma result_notes_dispatch:
  "i < length tasks \<Longrightarrow> result_notes (dispatch research tasks ! i) = research (tasks ! i)"
  by (simp add: dispatch_def)

lemma merge_complete_schedule:
  assumes "set schedule = {0..<length tasks}"
  shows "merge_notes (length tasks) (completions (dispatch research tasks) schedule) =
           concat (map research tasks)"
proof -
  have all: "filter (\<lambda>i. i < length tasks) schedule = schedule"
    using assms by (auto simp: filter_id_conv)
  have "map (\<lambda>i. case map_of (completions (dispatch research tasks) schedule) i of
                    None \<Rightarrow> [] | Some ns \<Rightarrow> ns) [0..<length tasks] =
        map (\<lambda>i. research (tasks ! i)) [0..<length tasks]"
    using assms by (simp add: completions_def all map_of_tagged result_notes_dispatch)
  also have "\<dots> = map research tasks"
    by (rule nth_equalityI) simp_all
  finally show ?thesis
    by (simp add: merge_notes_def)
qed

lemma barrier_complete_schedule:
  assumes "set schedule = {0..<length tasks}"
  shows "barrier (length tasks) (completions (dispatch research tasks) schedule)"
proof -
  have "filter (\<lambda>i. i < length tasks) schedule = schedule"
    using assms by (auto simp: filter_id_conv)
  then show ?thesis
    using assms by (simp add: barrier_def completions_def list_all_iff comp_def)
qed

text \<open>
  Claim C8.  Let the supervisor dispatch the threads of its sub-tasks in order, and let
  them complete in any order: \<open>schedule\<close> lists the dispatch indices in completion
  order, each thread completing once.  Then the stage passes its barrier and the merged
  notes are the concatenation of the threads' notes in dispatch order; hence two complete
  schedules give the same merged notes.
\<close>

theorem merge_follows_dispatch_order:
  assumes "distinct schedule"
    and "set schedule = {0..<length (sub_tasks brief requested)}"
  shows "supervise research brief requested schedule =
           Some (concat (map research (sub_tasks brief requested)))"
  using merge_complete_schedule [OF assms(2)] barrier_complete_schedule [OF assms(2)]
  by (simp add: supervise_def Let_def)

theorem merge_follows_dispatch_order_witness:
  "distinct [1, 0, 2 :: nat] \<and>
   set [1, 0, 2 :: nat] = {0..<length (sub_tasks ''brief'' demo_tasks)} \<and>
   supervise demo_research ''brief'' demo_tasks [1, 0, 2] =
     Some [''t1-a'', ''t1-b'', ''t2-a'', ''t2-b'', ''t3-a'', ''t3-b''] \<and>
   supervise demo_research ''brief'' demo_tasks [1, 0, 2] =
     supervise demo_research ''brief'' demo_tasks [0, 1, 2]"
proof -
  have a: "distinct [1, 0, 2 :: nat]" and a': "distinct [0, 1, 2 :: nat]"
    by simp_all
  have n: "length (sub_tasks ''brief'' demo_tasks) = 3"
    by (simp add: sub_tasks_def demo_tasks_def)
  have b: "set [1, 0, 2 :: nat] = {0..<length (sub_tasks ''brief'' demo_tasks)}"
    and b': "set [0, 1, 2 :: nat] = {0..<length (sub_tasks ''brief'' demo_tasks)}"
    unfolding n by auto
  show ?thesis
    using merge_follows_dispatch_order [OF a b, of demo_research]
      merge_follows_dispatch_order [OF a' b', of demo_research] a b
    by (simp add: sub_tasks_def demo_tasks_def demo_research_def)
qed

section \<open>The fallback chain of the model selection\<close>

lemma model_attempt_malformed:
  "parse_model_string model_string = Inl x \<Longrightarrow> model_attempt be model_string kwargs = Inl x"
  by (simp add: model_attempt_def)

lemma model_attempt_unfold:
  "model_attempt be model_string kwargs =
     (case parse_model_string model_string of
        Inl x \<Rightarrow> Inl x
      | Inr (provider, model_info) \<Rightarrow>
          (if provider = ''lmstudio'' \<or> provider = ''ollama''
           then create_local_chat_model be provider model_info kwargs
           else init_chat_model be model_string kwargs))"
  by (simp add: model_attempt_def split: sum.splits prod.splits)

text \<open>
  Claim C10.  \<open>init_chat_model_from_env\<close> is a chain of three attempts: the configured
  string (the environment variable, or the fallback string when it is unset), then the
  fallback string, then the hard-coded \<open>openai:gpt-4o\<close>.  An exception of the first
  attempt, which includes the \<open>ValueError\<close> of a malformed string, and an exception of
  the second attempt are not passed to the caller: the next attempt is made instead.  So
  the function returns a model whenever one of the three attempts does, and an exception
  reaches the caller only when all three attempts raise; it is then the exception of the
  last one.
\<close>

theorem init_chat_model_fallback_chain:
  "init_chat_model_from_env be env_var fallback_model kwargs =
     (case model_attempt be (configured_string be env_var fallback_model) kwargs of
        Inr model \<Rightarrow> Inr model
      | Inl e \<Rightarrow>
          (case model_attempt be fallback_model kwargs of
             Inr model \<Rightarrow> Inr model
           | Inl fallback_error \<Rightarrow> init_chat_model be ''openai:gpt-4o'' kwargs)) \<and>
   (parse_model_string (configured_string be env_var fallback_model) = Inl x \<longrightarrow>
      init_chat_model_from_env be env_var fallback_model kwargs =
        (case model_attempt be fallback_model kwargs of
           Inr model \<Rightarrow> Inr model
         | Inl fallback_error \<Rightarrow> init_chat_model be ''openai:gpt-4o'' kwargs)) \<and>
   (init_chat_model_from_env be env_var fallback_model kwargs = Inl y \<longrightarrow>
      (\<exists>e fallback_error.
         model_attempt be (configured_string be env_var fallback_model) kwargs = Inl e \<and>
         model_attempt be fallback_model kwargs = Inl fallback_error \<and>
         init_chat_model be ''openai:gpt-4o'' kwargs = Inl y))"
proof -
  have chain: "init_chat_model_from_env be env_var fallback_model kwargs =
     (case model_attempt be (configured_string be env_var fallback_model) kwargs of
        Inr model \<Rightarrow> Inr model
      | Inl e \<Rightarrow>
          (case model_attempt be fallback_model kwargs of
             Inr model \<Rightarrow> Inr model
           | Inl fallback_error \<Rightarrow> init_chat_model be ''openai:gpt-4o'' kwargs))"
    unfolding init_chat_model_from_env_def model_attempt_unfold configured_string_def Let_def
    by (rule refl)
  moreover have "init_chat_model_from_env be env_var fallback_model kwargs =
        (case model_attempt be fallback_model kwargs of
           Inr model \<Rightarrow> Inr model
         | Inl fallback_error \<Rightarrow> init_chat_model be ''openai:gpt-4o'' kwargs)"
    if "parse_model_string (configured_string be env_var fallback_model) = Inl x"
    unfolding chain by (simp add: model_attempt_malformed [OF that])
  moreover have "\<exists>e fallback_error.
         model_attempt be (configured_string be env_var fallback_model) kwargs = Inl e \<and>
         model_attempt be fallback_model kwargs = Inl fallback_error \<and>
         init_chat_model be ''openai:gpt-4o'' kwargs = Inl y"
    if "init_chat_model_from_env be env_var fallback_model kwargs = Inl y"
    using that unfolding chain by (auto split: sum.splits)
  ultimately show ?thesis by blast
qed

theorem init_chat_model_fallback_chain_witness:
  "configured_string demo_backend ''REPORT_MODEL'' ''lmstudio://localhost/llama'' = ''gpt4o'' \<and>
   parse_model_string ''gpt4o'' =
     Inl (ValueError (''Invalid model string format: gpt4o. Expected '' @ [CHR 0x27] @
       ''provider:model'' @ [CHR 0x27] @ '' or '' @ [CHR 0x27] @
       ''provider://host:port/model'' @ [CHR 0x27])) \<and>
   model_attempt demo_backend ''lmstudio://localhost/llama'' () =
     Inl (ValueError ''Local model info must include port: localhost/llama'') \<and>
   init_chat_model_from_env demo_backend ''REPORT_MODEL'' ''lmstudio://localhost/llama'' () =
     Inr ''gpt-4o'' \<and>
   init_chat_model_from_env demo_backend ''REPORT_MODEL'' ''lmstudio://localhost:1234/llama'' () =
     Inr ''http://localhost:1234/v1 llama''"
proof -
  have c: "configured_string demo_backend ''REPORT_MODEL'' fb = ''gpt4o''" for fb
    by (simp add: configured_string_def demo_backend_def)
  have p: "parse_model_string ''gpt4o'' =
     Inl (ValueError (''Invalid model string format: gpt4o. Expected '' @ [CHR 0x27] @
       ''provider:model'' @ [CHR 0x27] @ '' or '' @ [CHR 0x27] @
       ''provider://host:port/model'' @ [CHR 0x27]))"
    by (simp add: parse_model_string_def)
  have f1: "model_attempt demo_backend ''lmstudio://localhost/llama'' () =
     Inl (ValueError ''Local model info must include port: localhost/llama'')"
    by (simp add: model_attempt_def parse_model_string_def
        create_local_chat_model_def str_find_def rsplit_once_def Let_def)
  have f2: "model_attempt demo_backend ''lmstudio://localhost:1234/llama'' () =
     Inr ''http://localhost:1234/v1 llama''"
    by (simp add: model_attempt_def parse_model_string_def
        create_local_chat_model_def str_find_def rsplit_once_def Let_def demo_backend_def
        str_int_def digit_char_def)
  have last: "init_chat_model demo_backend ''openai:gpt-4o'' () = Inr ''gpt-4o''"
    by (simp add: demo_backend_def)
  show ?thesis
    using init_chat_model_fallback_chain
        [of demo_backend "''REPORT_MODEL''" "''lmstudio://localhost/llama''" "()"]
      init_chat_model_fallback_chain
        [of demo_backend "''REPORT_MODEL''" "''lmstudio://localhost:1234/llama''" "()"]
      c p f1 f2 last
    by (simp add: model_attempt_malformed)
qed

end
